theory Spec2Isabelle
  imports Main "HOL-Library.Sublist" "HOL-Library.Finite_Map"
begin

section \<open>Strings\<close>

text \<open>
  Go strings are byte sequences; a \<^typ>\<open>string\<close> is a list of 8-bit characters.
  \<open>Index\<close>, \<open>Contains\<close>, \<open>HasSuffix\<close>, \<open>Split\<close> and \<open>Join\<close> are the functions of Go's
  \<open>strings\<close> package that \<open>helpers.go\<close> calls: \<open>Index s sep\<close> is the position of the
  first occurrence of \<open>sep\<close> in \<open>s\<close> (\<open>None\<close> for Go's \<open>-1\<close>), and \<open>Split\<close> cuts at
  the leftmost occurrence again and again, as \<open>genSplit\<close> does. The provider splits
  at \<open>::\<close> only; the case of the empty separator, which cuts after every character,
  is written for single-byte characters.
\<close>

type_synonym bytes = string

fun Index :: "string \<Rightarrow> string \<Rightarrow> nat option" where
  "Index [] sep = (if sep = [] then Some 0 else None)"
| "Index (c # cs) sep =
     (if prefix sep (c # cs) then Some 0 else map_option Suc (Index cs sep))"

definition Contains :: "string \<Rightarrow> string \<Rightarrow> bool" where
  "Contains s substr = (Index s substr \<noteq> None)"

definition HasSuffix :: "string \<Rightarrow> string \<Rightarrow> bool" where
  "HasSuffix s suf = suffix suf s"

lemma Index_bound: "Index s sep = Some m \<Longrightarrow> m + length sep \<le> length s"
  by (induction s arbitrary: m) (auto split: if_splits dest: prefix_length_le)

function Split :: "string \<Rightarrow> string \<Rightarrow> string list" where
  "Split s sep =
     (if sep = [] then map (\<lambda>c. [c]) s
      else case Index s sep of
             None \<Rightarrow> [s]
           | Some m \<Rightarrow> take m s # Split (drop (m + length sep) s) sep)"
  by pat_completeness auto
termination
proof (relation "measure (\<lambda>(s, sep). length s)")
  show "wf (measure (\<lambda>(s, sep). length s))" by simp
next
  fix s sep :: string and m
  assume "sep \<noteq> []" and "Index s sep = Some m"
  then have "m + length sep \<le> length s" and "0 < length sep"
    by (auto dest: Index_bound)
  then have "length (drop (m + length sep) s) < length s"
    by (cases sep) auto
  then show "((drop (m + length sep) s, sep), (s, sep)) \<in> measure (\<lambda>(s, sep). length s)"
    by simp
qed

declare Split.simps [simp del]

fun Join :: "string list \<Rightarrow> string \<Rightarrow> string" where
  "Join [] sep = []"
| "Join [a] sep = a"
| "Join (a # b # rest) sep = a @ sep @ Join (b # rest) sep"

section \<open>Object model\<close>

text \<open>
  An \<open>unstructured.Unstructured\<close> wraps a \<open>map[string]interface{}\<close>. The values
  under it are JSON values; a JSON object is a finite map. The record keeps the
  entries the provider reads or writes: the identity accessors
  (\<open>GetAPIVersion\<close>, \<open>GetKind\<close>, \<open>GetNamespace\<close>, \<open>GetName\<close>,
  \<open>GetResourceVersion\<close>, each the empty string when the entry is missing) and the
  top-level \<open>spec\<close> and \<open>status\<close> entries (\<open>None\<close> when the key is missing).
\<close>

datatype jvalue =
    JNull
  | JBool bool
  | JInt int
  | JString string
  | JList "jvalue list"
  | JMap "(string, jvalue) fmap"

record unstructured =
  apiVersion :: string
  kind :: string
  namespace :: string
  name :: string
  resourceVersion :: string
  spec :: "jvalue option"
  status :: "jvalue option"

abbreviation GetAPIVersion :: "unstructured \<Rightarrow> string" where
  "GetAPIVersion u \<equiv> apiVersion u"
abbreviation GetKind :: "unstructured \<Rightarrow> string" where
  "GetKind u \<equiv> kind u"
abbreviation GetNamespace :: "unstructured \<Rightarrow> string" where
  "GetNamespace u \<equiv> namespace u"
abbreviation GetName :: "unstructured \<Rightarrow> string" where
  "GetName u \<equiv> name u"
abbreviation GetResourceVersion :: "unstructured \<Rightarrow> string" where
  "GetResourceVersion u \<equiv> resourceVersion u"
abbreviation SetNamespace :: "unstructured \<Rightarrow> string \<Rightarrow> unstructured" where
  "SetNamespace u ns \<equiv> u\<lparr>namespace := ns\<rparr>"
abbreviation SetName :: "unstructured \<Rightarrow> string \<Rightarrow> unstructured" where
  "SetName u n \<equiv> u\<lparr>name := n\<rparr>"
abbreviation SetResourceVersion :: "unstructured \<Rightarrow> string \<Rightarrow> unstructured" where
  "SetResourceVersion u v \<equiv> u\<lparr>resourceVersion := v\<rparr>"

datatype GroupVersion = GroupVersion (Group: string) (Version: string)

datatype GroupKind = GroupKind string string

datatype GroupVersionKind = GroupVersionKind (gvkGroup: string) (gvkVersion: string) (Kind: string)

datatype error =
    FormatError string
  | GroupVersionError string
  | ParseError string
  | NotFound
  | NoMatch
  | ApiError string
  | LibError string
  | Wrap string error
  | TimeoutError string
  | UnexpectedStateError string
  | NotFoundError

text \<open>
  \<open>schema.ParseGroupVersion\<close>, \<open>GroupVersion.String\<close>, \<open>GroupVersion.WithKind\<close> and
  \<open>Unstructured.GroupVersionKind\<close> of apimachinery: an apiVersion is \<open>version\<close> or
  \<open>group/version\<close>; more than one slash is an error, and then the object's
  group-version-kind is the empty one.
\<close>

definition ParseGroupVersion :: "string \<Rightarrow> error + GroupVersion" where
  "ParseGroupVersion gv =
     (if gv = [] \<or> gv = ''/'' then Inr (GroupVersion [] [])
      else case count_list gv (CHR ''/'') of
             0 \<Rightarrow> Inr (GroupVersion [] gv)
           | Suc 0 \<Rightarrow> (case Index gv ''/'' of
                         Some i \<Rightarrow> Inr (GroupVersion (take i gv) (drop (i + 1) gv))
                       | None \<Rightarrow> Inr (GroupVersion [] gv))
           | _ \<Rightarrow> Inl (GroupVersionError gv))"

definition gvString :: "GroupVersion \<Rightarrow> string" where
  "gvString gv =
     (if Group gv = [] \<and> Version gv = [] then []
      else if Group gv = [] \<and> Version gv = ''v1'' then Version gv
      else if Group gv \<noteq> [] then Group gv @ ''/'' @ Version gv
      else Version gv)"

definition WithKind :: "GroupVersion \<Rightarrow> string \<Rightarrow> GroupVersionKind" where
  "WithKind gv k = GroupVersionKind (Group gv) (Version gv) k"

definition gvkGroupVersion :: "GroupVersionKind \<Rightarrow> GroupVersion" where
  "gvkGroupVersion gvk = GroupVersion (gvkGroup gvk) (gvkVersion gvk)"

definition gvkGroupKind :: "GroupVersionKind \<Rightarrow> GroupKind" where
  "gvkGroupKind gvk = GroupKind (gvkGroup gvk) (Kind gvk)"

definition GetGroupVersionKind :: "unstructured \<Rightarrow> GroupVersionKind" where
  "GetGroupVersionKind u =
     (case ParseGroupVersion (GetAPIVersion u) of
        Inl err \<Rightarrow> GroupVersionKind [] [] []
      | Inr gv \<Rightarrow> WithKind gv (GetKind u))"

definition SetGroupVersionKind :: "unstructured \<Rightarrow> GroupVersionKind \<Rightarrow> unstructured" where
  "SetGroupVersionKind u gvk = u\<lparr>apiVersion := gvString (gvkGroupVersion gvk), kind := Kind gvk\<rparr>"

section \<open>Identity codec (helpers.go)\<close>

definition idSeparator :: string where
  "idSeparator = ''::''"

definition idParts :: "string \<Rightarrow> error + (string \<times> string \<times> string \<times> string)" where
  "idParts ident =
     (let parts = Split ident idSeparator in
      if length parts \<noteq> 4 then Inl (FormatError ident)
      else Inr (parts ! 0, parts ! 1, parts ! 2, parts ! 3))"

definition buildId :: "unstructured \<Rightarrow> string" where
  "buildId object =
     Join [GetNamespace object,
           gvString (gvkGroupVersion (GetGroupVersionKind object)),
           Kind (GetGroupVersionKind object),
           GetName object] idSeparator"

section \<open>Collaborators\<close>

text \<open>
  The provider calls libraries whose code is not part of the repository: the JSON
  encoder, the native scheme's converter, the two patch libraries, kubectl's status
  viewers, mapstructure and the YAML decoder. They are parameters of the model,
  collected in one record, so that every theorem holds for whatever they compute.
  \<open>'t\<close> is the type of converted (typed) objects, \<open>'m\<close> the type of patch metadata.
\<close>

datatype PatchType = MergePatchType | StrategicMergePatchType

datatype 't runtimeObject = Typed 't | Unstruct unstructured

record status =
  ReadyReplicas :: "int option"
  Phase :: "string option"
  LoadBalancer :: "(string, jvalue) fmap option"

record ('t, 'm) libs =
  Marshal :: "unstructured \<Rightarrow> error + bytes"
  ConvertToVersion :: "unstructured \<Rightarrow> GroupVersion \<Rightarrow> error + 't"
  NewPatchMetaFromStruct :: "'t \<Rightarrow> error + 'm"
  CreateMergePatch :: "bytes \<Rightarrow> bytes \<Rightarrow> bytes option \<times> error option"
  CreateThreeWayMergePatch ::
    "bytes \<Rightarrow> bytes \<Rightarrow> bytes \<Rightarrow> 'm \<Rightarrow> bool \<Rightarrow> bytes option \<times> error option"
  StatusViewerFor :: "GroupKind \<Rightarrow> error + (unstructured \<Rightarrow> error + bool)"
  Decode :: "jvalue \<Rightarrow> error + status"
  DecodeDocuments :: "string \<Rightarrow> (error + unstructured option) list"

text \<open>
  The remote API client. Its answers are functions of the request; the answer to a
  \<open>Get\<close> may also depend on how many calls were issued before it, so that the remote
  object can change while the provider polls. Every call is appended to \<open>calls\<close>.
\<close>

datatype ObjectKey = ObjectKey string string

datatype call =
    CreateCall unstructured
  | GetCall ObjectKey unstructured
  | PatchCall unstructured PatchType bytes
  | DeleteCall unstructured bool

record client =
  onCreate :: "unstructured \<Rightarrow> error + unstructured"
  onGet :: "nat \<Rightarrow> ObjectKey \<Rightarrow> unstructured \<Rightarrow> error + unstructured"
  onPatch :: "unstructured \<Rightarrow> PatchType \<Rightarrow> bytes \<Rightarrow> error option"
  onDelete :: "unstructured \<Rightarrow> bool \<Rightarrow> error option"
  calls :: "call list"

definition clientCreate :: "client \<Rightarrow> unstructured \<Rightarrow> (error + unstructured) \<times> client" where
  "clientCreate c object = (onCreate c object, c\<lparr>calls := calls c @ [CreateCall object]\<rparr>)"

definition clientGet ::
  "client \<Rightarrow> ObjectKey \<Rightarrow> unstructured \<Rightarrow> (error + unstructured) \<times> client" where
  "clientGet c objectKey object =
     (onGet c (length (calls c)) objectKey object,
      c\<lparr>calls := calls c @ [GetCall objectKey object]\<rparr>)"

definition clientPatch ::
  "client \<Rightarrow> unstructured \<Rightarrow> PatchType \<Rightarrow> bytes \<Rightarrow> error option \<times> client" where
  "clientPatch c object patchType data =
     (onPatch c object patchType data, c\<lparr>calls := calls c @ [PatchCall object patchType data]\<rparr>)"

definition clientDelete :: "client \<Rightarrow> unstructured \<Rightarrow> bool \<Rightarrow> error option \<times> client" where
  "clientDelete c object cascade =
     (onDelete c object cascade, c\<lparr>calls := calls c @ [DeleteCall object cascade]\<rparr>)"

definition IsNotFound :: "error \<Rightarrow> bool" where
  "IsNotFound err = (err = NotFound)"

definition IsNoMatchError :: "error \<Rightarrow> bool" where
  "IsNoMatchError err = (err = NoMatch)"

text \<open>
  \<open>client.ObjectKeyFromObject\<close> reads namespace and name through the object's
  metadata accessor, which an unstructured object always has.
\<close>

definition ObjectKeyFromObject :: "unstructured \<Rightarrow> error + ObjectKey" where
  "ObjectKeyFromObject object = Inr (ObjectKey (GetNamespace object) (GetName object))"

section \<open>Patch engine (patch.go)\<close>

text \<open>
  \<open>convert\<close> returns the typed object when the native scheme converts the target and
  the unstructured object itself otherwise; the test \<open>versionedObject.(runtime.Unstructured)\<close>
  of \<open>createPatch\<close> tells the two apart. A \<open>nil\<close> byte slice is \<open>None\<close>, and the
  library results \<open>(patch, err)\<close> are passed through as the pair they are.
\<close>

definition convert :: "('t, 'm) libs \<Rightarrow> unstructured \<Rightarrow> 't runtimeObject" where
  "convert L obj =
     (case ConvertToVersion L obj (gvkGroupVersion (GetGroupVersionKind obj)) of
        Inr typed \<Rightarrow> Typed typed
      | Inl err \<Rightarrow> Unstruct obj)"

definition createPatch ::
  "('t, 'm) libs \<Rightarrow> unstructured \<Rightarrow> unstructured \<Rightarrow> unstructured
     \<Rightarrow> bytes option \<times> PatchType \<times> error option" where
  "createPatch L target original current =
     (case Marshal L current of
        Inl err \<Rightarrow>
          (None, StrategicMergePatchType, Some (Wrap ''serializing current configuration'' err))
      | Inr oldData \<Rightarrow>
     (case Marshal L original of
        Inl err \<Rightarrow>
          (None, StrategicMergePatchType, Some (Wrap ''serializing original configuration'' err))
      | Inr originalData \<Rightarrow>
     (case Marshal L target of
        Inl err \<Rightarrow>
          (None, StrategicMergePatchType, Some (Wrap ''serializing target configuration'' err))
      | Inr newData \<Rightarrow>
     (case convert L target of
        Unstruct u \<Rightarrow>
          (fst (CreateMergePatch L oldData newData), MergePatchType,
           snd (CreateMergePatch L oldData newData))
      | Typed versionedObject \<Rightarrow>
          (case NewPatchMetaFromStruct L versionedObject of
             Inl err \<Rightarrow>
               (None, StrategicMergePatchType,
                Some (Wrap ''unable to create patch metadata from object'' err))
           | Inr patchMeta \<Rightarrow>
               (fst (CreateThreeWayMergePatch L originalData newData oldData patchMeta True),
                StrategicMergePatchType,
                snd (CreateThreeWayMergePatch L originalData newData oldData patchMeta True)))))))"

definition patch ::
  "('t, 'm) libs \<Rightarrow> client \<Rightarrow> unstructured \<Rightarrow> unstructured \<Rightarrow> unstructured
     \<Rightarrow> error option \<times> client" where
  "patch L c target original current =
     (case createPatch L target original current of
        (p, patchType, Some err) \<Rightarrow> (Some (Wrap ''failed to create patch'' err), c)
      | (None, patchType, None) \<Rightarrow> (None, c)
      | (Some data, patchType, None) \<Rightarrow>
          if data = ''{}'' then (None, c)
          else (case clientPatch c current patchType data of
                  (Some err, c') \<Rightarrow> (Some (Wrap ''cannot patch'' err), c')
                | (None, c') \<Rightarrow> (None, c')))"

section \<open>Readiness monitor (resource\_k8s\_manifest.go)\<close>

text \<open>
  The body of the readiness \<open>Refresh\<close> closure after a successful fetch: the
  classification of the fetched object. The result is the triple the closure
  returns: the object (\<open>None\<close> for \<open>nil\<close>), the state name, the error. The closure's
  \<open>err\<close> variable holds \<open>nil\<close> on the three paths that return it for a \<open>Service\<close>
  without a usable \<open>spec.type\<close>.
\<close>

definition readyStatus ::
  "('t, 'm) libs \<Rightarrow> unstructured \<Rightarrow> unstructured option \<times> string \<times> error option" where
  "readyStatus L object =
     (case status object of
        None \<Rightarrow> (Some object, ''ready'', None)
      | Some s \<Rightarrow>
     (case StatusViewerFor L (gvkGroupKind (GetGroupVersionKind object)) of
        Inr statusViewer \<Rightarrow>
          (case statusViewer object of
             Inl err \<Rightarrow> (None, ''error'', Some err)
           | Inr ready \<Rightarrow>
               if ready then (Some object, ''ready'', None) else (Some object, ''pending'', None))
      | Inl noViewer \<Rightarrow>
     (case Decode L s of
        Inl err \<Rightarrow> (None, ''error'', Some err)
      | Inr st \<Rightarrow>
     (case ReadyReplicas st of
        Some readyReplicas \<Rightarrow>
          if readyReplicas > 0 then (Some object, ''ready'', None)
          else (Some object, ''pending'', None)
      | None \<Rightarrow>
     (case Phase st of
        Some phase \<Rightarrow>
          if phase = ''Active'' \<or> phase = ''Bound'' \<or> phase = ''Running'' \<or> phase = ''Ready''
             \<or> phase = ''Online'' \<or> phase = ''Healthy''
          then (Some object, ''ready'', None)
          else (Some object, ''pending'', None)
      | None \<Rightarrow>
     (case LoadBalancer st of
        None \<Rightarrow> (Some object, ''ready'', None)
      | Some loadBalancer \<Rightarrow>
          if GetAPIVersion object = ''v1'' \<and> GetKind object = ''Service'' then
            (case spec object of
               None \<Rightarrow> (None, ''error'', None)
             | Some (JMap specMap) \<Rightarrow>
                 (case fmlookup specMap ''type'' of
                    None \<Rightarrow> (None, ''error'', None)
                  | Some serviceType \<Rightarrow>
                      if serviceType = JString ''LoadBalancer'' then
                        (if fcard (fmdom loadBalancer) > 0 then (Some object, ''ready'', None)
                         else (Some object, ''pending'', None))
                      else (Some object, ''ready'', None))
             | Some other \<Rightarrow> (None, ''error'', None))
          else
            (if fcard (fmdom loadBalancer) > 0 then (Some object, ''ready'', None)
             else (Some object, ''pending'', None))))))))"

definition readyRefresh ::
  "('t, 'm) libs \<Rightarrow> ObjectKey \<Rightarrow> client \<times> unstructured
     \<Rightarrow> (unstructured option \<times> string \<times> error option) \<times> client \<times> unstructured" where
  "readyRefresh L objectKey = (\<lambda>(c, object).
     (case clientGet c objectKey object of
        (Inl err, c') \<Rightarrow> ((None, ''error'', Some err), c', object)
      | (Inr fetched, c') \<Rightarrow> (readyStatus L fetched, c', fetched)))"

definition deleteRefresh ::
  "ObjectKey \<Rightarrow> client \<times> unstructured
     \<Rightarrow> (unstructured option \<times> string \<times> error option) \<times> client \<times> unstructured" where
  "deleteRefresh objectKey = (\<lambda>(c, currentObject).
     (case clientGet c objectKey currentObject of
        (Inl err, c') \<Rightarrow>
          if IsNotFound err then ((Some currentObject, ''deleted'', None), c', currentObject)
          else ((None, ''error'', Some err), c', currentObject)
      | (Inr fetched, c') \<Rightarrow> ((Some fetched, ''deleting'', None), c', fetched)))"

text \<open>
  Modelled from the spec: \<open>StateChangeConf.WaitForState\<close> of the plugin SDK, which
  is not part of the repository. The spec describes the wait as a loop of refreshes
  that stops on the first target classification, aborts on a refresh error, and
  reports a timeout error when the deadline is exceeded while the state is still
  pending. Time is counted in refreshes: the deadline is the number of refreshes it
  admits. A state that is neither pending nor target, which the spec does not
  describe, ends the wait with an error.
\<close>

fun WaitForState ::
  "string list \<Rightarrow> string list \<Rightarrow> ('s \<Rightarrow> (unstructured option \<times> string \<times> error option) \<times> 's)
     \<Rightarrow> nat \<Rightarrow> string \<Rightarrow> 's \<Rightarrow> (unstructured option \<times> error option) \<times> 's" where
  "WaitForState pending target refresh 0 lastState s = ((None, Some (TimeoutError lastState)), s)"
| "WaitForState pending target refresh (Suc deadline) lastState s =
     (case refresh s of
        ((res, currentState, Some err), s') \<Rightarrow> ((res, Some err), s')
      | ((res, currentState, None), s') \<Rightarrow>
          if currentState \<in> set target then ((res, None), s')
          else if currentState \<in> set pending
          then WaitForState pending target refresh deadline currentState s'
          else ((res, Some (UnexpectedStateError currentState)), s'))"

section \<open>Resource operations (resource\_k8s\_manifest.go)\<close>

text \<open>
  \<open>schema.ResourceData\<close>: the stored ID, the configured attributes (\<open>content\<close> with
  its previous value, for \<open>GetChange\<close>) and the three timeouts.
\<close>

record ResourceData =
  Id :: string
  namespaceAttr :: string
  content :: string
  contentOld :: string
  delete_cascade :: bool
  TimeoutCreate :: nat
  TimeoutUpdate :: nat
  TimeoutDelete :: nat

abbreviation SetId :: "ResourceData \<Rightarrow> string \<Rightarrow> ResourceData" where
  "SetId d v \<equiv> d\<lparr>Id := v\<rparr>"

definition emptyObject :: unstructured where
  "emptyObject = \<lparr>apiVersion = [], kind = [], namespace = [], name = [],
                   resourceVersion = [], spec = None, status = None\<rparr>"

fun firstObject :: "(error + unstructured option) list \<Rightarrow> error + unstructured" where
  "firstObject [] = Inl (Wrap ''Failed to unmarshal manifest'' (ParseError ''EOF''))"
| "firstObject (Inl err # docs) = Inl (Wrap ''Failed to unmarshal manifest'' err)"
| "firstObject (Inr None # docs) = firstObject docs"
| "firstObject (Inr (Some object) # docs) = Inr object"

definition contentToObject :: "('t, 'm) libs \<Rightarrow> string \<Rightarrow> error + unstructured" where
  "contentToObject L text = firstObject (DecodeDocuments L text)"

definition defaultNamespace :: "string \<Rightarrow> unstructured \<Rightarrow> unstructured" where
  "defaultNamespace ns object =
     (if ns = [] \<and> GetNamespace object = [] then SetNamespace object ''default''
      else if GetNamespace object = [] then SetNamespace object ns
      else object)"

definition waitForReadyStatus ::
  "('t, 'm) libs \<Rightarrow> ResourceData \<Rightarrow> client \<Rightarrow> unstructured \<Rightarrow> nat
     \<Rightarrow> error option \<times> ResourceData \<times> client \<times> unstructured" where
  "waitForReadyStatus L d c object timeout =
     (case ObjectKeyFromObject object of
        Inl err \<Rightarrow> (Some err, d, c, object)
      | Inr objectKey \<Rightarrow>
          (case WaitForState [''pending''] [''ready''] (readyRefresh L objectKey) timeout []
                  (c, object) of
             ((res, Some err), (c', object')) \<Rightarrow>
               (Some (Wrap (''Error waiting for resource ('' @ Id d @ '') to be created'') err),
                d, c', object')
           | ((res, None), (c', object')) \<Rightarrow> (None, d, c', object')))"

definition objectFromId :: "GroupVersion \<Rightarrow> string \<Rightarrow> string \<Rightarrow> string \<Rightarrow> unstructured" where
  "objectFromId groupVersion k ns n =
     SetName (SetNamespace (SetGroupVersionKind emptyObject (WithKind groupVersion k)) ns) n"

definition resourceK8sManifestRead ::
  "('t, 'm) libs \<Rightarrow> ResourceData \<Rightarrow> client \<Rightarrow> error option \<times> ResourceData \<times> client" where
  "resourceK8sManifestRead L d c =
     (case idParts (Id d) of
        Inl err \<Rightarrow> (Some err, d, c)
      | Inr (ns, gv, k, n) \<Rightarrow>
     (case ParseGroupVersion gv of
        Inl err \<Rightarrow> (Some err, d, c)
      | Inr groupVersion \<Rightarrow>
     (case ObjectKeyFromObject (objectFromId groupVersion k ns n) of
        Inl err \<Rightarrow> (Some err, d, c)
      | Inr objectKey \<Rightarrow>
     (case clientGet c objectKey (objectFromId groupVersion k ns n) of
        (Inl err, c') \<Rightarrow>
          if IsNotFound err then (None, SetId d [], c')
          else if IsNoMatchError err then (None, SetId d [], c')
          else (Some err, d, c')
      | (Inr object, c') \<Rightarrow> (None, d, c')))))"

definition resourceK8sManifestCreate ::
  "('t, 'm) libs \<Rightarrow> ResourceData \<Rightarrow> client \<Rightarrow> error option \<times> ResourceData \<times> client" where
  "resourceK8sManifestCreate L d c =
     (case contentToObject L (content d) of
        Inl err \<Rightarrow> (Some err, d, c)
      | Inr object \<Rightarrow>
     (case clientCreate c (defaultNamespace (namespaceAttr d) object) of
        (Inl err, c1) \<Rightarrow> (Some err, d, c1)
      | (Inr created, c1) \<Rightarrow>
     (case waitForReadyStatus L (SetId d (buildId created)) c1 created (TimeoutCreate d) of
        (Some err, d2, c2, object2) \<Rightarrow> (Some err, d2, c2)
      | (None, d2, c2, object2) \<Rightarrow> resourceK8sManifestRead L d2 c2)))"

definition resourceK8sManifestUpdate ::
  "('t, 'm) libs \<Rightarrow> ResourceData \<Rightarrow> client \<Rightarrow> error option \<times> ResourceData \<times> client" where
  "resourceK8sManifestUpdate L d c =
     (case idParts (Id d) of
        Inl err \<Rightarrow> (Some err, d, c)
      | Inr (ns, gv, k, n) \<Rightarrow>
     (case contentToObject L (content d) of
        Inl err \<Rightarrow> (Some err, d, c)
      | Inr newObject \<Rightarrow>
     (case contentToObject L (contentOld d) of
        Inl err \<Rightarrow> (Some err, d, c)
      | Inr original \<Rightarrow>
     (let modified = defaultNamespace ns newObject in
      case ObjectKeyFromObject modified of
        Inl err \<Rightarrow> (Some err, d, c)
      | Inr objectKey \<Rightarrow>
     (case clientGet c objectKey modified of
        (Inl err, c1) \<Rightarrow> (Some err, d, c1)
      | (Inr current, c1) \<Rightarrow>
     (case patch L c1 (SetResourceVersion modified (GetResourceVersion current))
                  (SetResourceVersion original []) (SetResourceVersion current []) of
        (Some err, c2) \<Rightarrow> (Some err, d, c2)
      | (None, c2) \<Rightarrow>
     (case waitForReadyStatus L d c2
             (SetResourceVersion modified (GetResourceVersion current)) (TimeoutUpdate d) of
        (err, d3, c3, object3) \<Rightarrow> (err, d3, c3))))))))"

definition resourceK8sManifestDelete ::
  "('t, 'm) libs \<Rightarrow> ResourceData \<Rightarrow> client \<Rightarrow> error option \<times> ResourceData \<times> client" where
  "resourceK8sManifestDelete L d c =
     (case idParts (Id d) of
        Inl err \<Rightarrow> (Some err, d, c)
      | Inr (ns, gv, k, n) \<Rightarrow>
     (case ParseGroupVersion gv of
        Inl err \<Rightarrow> (Some err, d, c)
      | Inr groupVersion \<Rightarrow>
     (case ObjectKeyFromObject (objectFromId groupVersion k ns n) of
        Inl err \<Rightarrow> (Some err, d, c)
      | Inr objectKey \<Rightarrow>
     (case clientDelete c (objectFromId groupVersion k ns n) (delete_cascade d) of
        (Some err, c1) \<Rightarrow> (Some err, d, c1)
      | (None, c1) \<Rightarrow>
     (case WaitForState [''deleting''] [''deleted''] (deleteRefresh objectKey) (TimeoutDelete d) []
             (c1, objectFromId groupVersion k ns n) of
        ((res, Some err), (c2, object2)) \<Rightarrow>
          (Some (Wrap (''Error waiting for resource ('' @ Id d @ '') to be deleted'') err), d, c2)
      | ((res, None), (c2, object2)) \<Rightarrow> (None, d, c2))))))"

section \<open>A concrete instance\<close>

text \<open>
  \<open>mapstructure.Decode\<close> into the \<open>status\<close> struct, for a status whose keys are spelled
  as Kubernetes writes them (\<open>readyReplicas\<close>, \<open>phase\<close>, \<open>loadBalancer\<close>) or as the Go
  fields are: a missing key or a \<open>null\<close> leaves the field \<open>nil\<close>, a value of another
  type is an error, and a status that is not a map is an error. The library itself
  matches keys without regard to case and converts a floating-point number to an
  integer; other spellings and floating-point numbers are outside this stand-in, which
  only the concrete instance uses.
\<close>

definition decodeInt :: "jvalue option \<Rightarrow> error + int option" where
  "decodeInt v = (case v of
      None \<Rightarrow> Inr None
    | Some JNull \<Rightarrow> Inr None
    | Some (JInt n) \<Rightarrow> Inr (Some n)
    | Some other \<Rightarrow> Inl (LibError ''expected type int''))"

definition decodeString :: "jvalue option \<Rightarrow> error + string option" where
  "decodeString v = (case v of
      None \<Rightarrow> Inr None
    | Some JNull \<Rightarrow> Inr None
    | Some (JString s) \<Rightarrow> Inr (Some s)
    | Some other \<Rightarrow> Inl (LibError ''expected type string''))"

definition decodeMap :: "jvalue option \<Rightarrow> error + (string, jvalue) fmap option" where
  "decodeMap v = (case v of
      None \<Rightarrow> Inr None
    | Some JNull \<Rightarrow> Inr None
    | Some (JMap m) \<Rightarrow> Inr (Some m)
    | Some other \<Rightarrow> Inl (LibError ''expected a map''))"

definition lookupField :: "(string, jvalue) fmap \<Rightarrow> string \<Rightarrow> string \<Rightarrow> jvalue option" where
  "lookupField m fieldName jsonName =
     (case fmlookup m fieldName of Some v \<Rightarrow> Some v | None \<Rightarrow> fmlookup m jsonName)"

definition decodeStatus :: "jvalue \<Rightarrow> error + status" where
  "decodeStatus s = (case s of
      JNull \<Rightarrow> Inr \<lparr>ReadyReplicas = None, Phase = None, LoadBalancer = None\<rparr>
    | JMap m \<Rightarrow>
        (case (decodeInt (lookupField m ''ReadyReplicas'' ''readyReplicas''),
               decodeString (lookupField m ''Phase'' ''phase''),
               decodeMap (lookupField m ''LoadBalancer'' ''loadBalancer'')) of
           (Inr r, Inr p, Inr l) \<Rightarrow> Inr \<lparr>ReadyReplicas = r, Phase = p, LoadBalancer = l\<rparr>
         | other \<Rightarrow> Inl (LibError ''error(s) decoding''))
    | other \<Rightarrow> Inl (LibError ''expected a map''))"

text \<open>
  Collaborators to run the model on: a serialisation of the identity fields and the
  resource version, a scheme that knows the core and \<open>apps\<close> groups, no status viewers,
  and a YAML decoder that reads a text as the name of a \<open>ConfigMap\<close> after one empty
  document. The merge-patch library answers \<open>{}\<close> on equal documents and the new
  document otherwise. The three-way library answers the new document when current and
  target differ; when they are equal it answers \<open>{}\<close> only if the original is equal
  too, and otherwise a patch of deletions, as the strategic-merge library adds the
  deletions from original to target whatever the current object holds (the bytes stand
  for the deletion of a resource version that only the original carries).

  The remote holds one object, the \<open>ConfigMap\<close> \<open>cm\<close> of the namespace \<open>default\<close>: it
  answers a fetch of that object among its first three calls with a pending object,
  and every other fetch with \<open>NotFound\<close>; it deletes that object only.
\<close>

definition demoMarshal :: "unstructured \<Rightarrow> error + bytes" where
  "demoMarshal u = Inr (Join [apiVersion u, kind u, namespace u, name u, resourceVersion u] ''|'')"

definition demoLibs :: "(string, string) libs" where
  "demoLibs = \<lparr>
     Marshal = demoMarshal,
     ConvertToVersion = (\<lambda>u gv. if Group gv = [] \<or> Group gv = ''apps'' then Inr (kind u)
                                 else Inl NoMatch),
     NewPatchMetaFromStruct = (\<lambda>typed. Inr typed),
     CreateMergePatch = (\<lambda>old new. if old = new then (Some ''{}'', None) else (Some new, None)),
     CreateThreeWayMergePatch = (\<lambda>orig new old meta overwrite.
        if old = new
        then (if orig = new then (Some ''{}'', None)
              else (Some ''{metadata:{resourceVersion:null}}'', None))
        else (Some new, None)),
     StatusViewerFor = (\<lambda>gk. Inl (LibError ''no status viewer has been implemented'')),
     Decode = decodeStatus,
     DecodeDocuments = (\<lambda>text. if text = [] then []
        else [Inr None, Inr (Some \<lparr>apiVersion = ''v1'', kind = ''ConfigMap'', namespace = [],
                name = text, resourceVersion = [], spec = None, status = None\<rparr>)])\<rparr>"

definition demoClient :: client where
  "demoClient = \<lparr>
     onCreate = (\<lambda>object. Inr (object\<lparr>resourceVersion := ''1''\<rparr>)),
     onGet = (\<lambda>n objectKey object.
        if objectKey = ObjectKey ''default'' ''cm'' \<and> GetAPIVersion object = ''v1''
           \<and> GetKind object = ''ConfigMap'' \<and> n < 3
        then Inr (object\<lparr>resourceVersion := ''1'',
                    status := Some (JMap (fmupd ''readyReplicas'' (JInt 0) fmempty))\<rparr>)
        else Inl NotFound),
     onPatch = (\<lambda>object patchType data. None),
     onDelete = (\<lambda>object cascade.
        if GetAPIVersion object = ''v1'' \<and> GetKind object = ''ConfigMap''
           \<and> GetNamespace object = ''default'' \<and> GetName object = ''cm''
        then None else Some NotFound),
     calls = []\<rparr>"

definition crontab :: unstructured where
  "crontab = \<lparr>apiVersion = ''stable.example.com/v1'', kind = ''CronTab'', namespace = ''default'',
              name = ''job'', resourceVersion = [], spec = None, status = None\<rparr>"

definition deployment :: unstructured where
  "deployment = \<lparr>apiVersion = ''apps/v1'', kind = ''Deployment'', namespace = ''default'',
                 name = ''web'', resourceVersion = [], spec = None, status = None\<rparr>"

definition service :: "string \<Rightarrow> jvalue \<Rightarrow> unstructured" where
  "service serviceType st =
     \<lparr>apiVersion = ''v1'', kind = ''Service'', namespace = ''default'', name = ''lb'',
      resourceVersion = ''1'',
      spec = Some (JMap (fmupd ''type'' (JString serviceType) fmempty)),
      status = Some st\<rparr>"

definition widget :: "jvalue \<Rightarrow> unstructured" where
  "widget st =
     \<lparr>apiVersion = ''example.com/v1'', kind = ''Widget'', namespace = ''default'', name = ''w'',
      resourceVersion = ''1'', spec = None, status = Some st\<rparr>"

definition configMap :: unstructured where
  "configMap = \<lparr>apiVersion = ''v1'', kind = ''ConfigMap'', namespace = ''default'', name = ''cm'',
                resourceVersion = [], spec = None, status = None\<rparr>"

definition demoData :: "string \<Rightarrow> nat \<Rightarrow> ResourceData" where
  "demoData ident timeout =
     \<lparr>Id = ident, namespaceAttr = [], content = ''cm'', contentOld = ''cm'',
      delete_cascade = False, TimeoutCreate = timeout, TimeoutUpdate = timeout,
      TimeoutDelete = timeout\<rparr>"

section \<open>Predicates used in the statements\<close>

text \<open>
  The six phases that the refresh compares with, and the remote's behaviour that the
  statements about the delete wait speak of. Two objects have the same identity when
  they agree on apiVersion, kind, namespace and name. \<open>fetchesSucceed c key object m\<close>
  says that each of the next \<open>m\<close> calls of the client \<open>c\<close>, if it is a fetch under the
  key \<open>key\<close> of an object with the identity of \<open>object\<close>, returns an object of that
  identity; \<open>fetchFails c key object i err\<close> says that such a fetch, as the call number
  \<open>i\<close>, fails with \<open>err\<close>. Neither says anything about a fetch under another key or
  of another object.
\<close>

definition readyPhases :: "string set" where
  "readyPhases = {''Active'', ''Bound'', ''Running'', ''Ready'', ''Online'', ''Healthy''}"

definition sameIdentity :: "unstructured \<Rightarrow> unstructured \<Rightarrow> bool" where
  "sameIdentity a b =
     (GetAPIVersion a = GetAPIVersion b \<and> GetKind a = GetKind b \<and>
      GetNamespace a = GetNamespace b \<and> GetName a = GetName b)"

definition fetchesSucceed :: "client \<Rightarrow> ObjectKey \<Rightarrow> unstructured \<Rightarrow> nat \<Rightarrow> bool" where
  "fetchesSucceed c key object m =
     (\<forall>i obj. length (calls c) \<le> i \<and> i < length (calls c) + m \<and> sameIdentity obj object \<longrightarrow>
        (\<exists>fetched. onGet c i key obj = Inr fetched \<and> sameIdentity fetched object))"

definition fetchFails :: "client \<Rightarrow> ObjectKey \<Rightarrow> unstructured \<Rightarrow> nat \<Rightarrow> error \<Rightarrow> bool" where
  "fetchFails c key object i err =
     (\<forall>obj. sameIdentity obj object \<longrightarrow> onGet c i key obj = Inl err)"

section \<open>Properties of the identity codec\<close>

lemma Index_none_no_prefix:
  "Index (c # cs) sep = None \<Longrightarrow> \<not> prefix sep (c # cs) \<and> Index cs sep = None"
  by (auto split: if_splits)

lemma Index_after_field:
  "Index a ''::'' = None \<Longrightarrow> \<not> suffix '':'' a \<Longrightarrow>
   Index (a @ ''::'' @ r) ''::'' = Some (length a)"
proof (induction a)
  case Nil
  then show ?case by simp
next
  case (Cons c cs)
  from Cons.prems(1) have np: "\<not> prefix ''::'' (c # cs)" and rest: "Index cs ''::'' = None"
    using Index_none_no_prefix by blast+
  have ns: "\<not> suffix '':'' cs"
    using Cons.prems(2) by (auto simp: suffix_Cons)
  have "\<not> prefix ''::'' (c # cs @ ''::'' @ r)"
  proof (cases cs)
    case Nil
    with Cons.prems(2) have "c \<noteq> CHR '':''" by (auto simp: suffix_def)
    then show ?thesis by simp
  next
    case (Cons d ds)
    with np show ?thesis by simp
  qed
  with Cons.IH [OF rest ns] show ?case by simp
qed

lemma Split_field:
  assumes "Index a ''::'' = None" and "\<not> suffix '':'' a"
  shows "Split (a @ ''::'' @ r) ''::'' = a # Split r ''::''"
proof -
  have "Index (a @ ''::'' @ r) ''::'' = Some (length a)"
    using assms by (rule Index_after_field)
  then show ?thesis
    by (subst Split.simps) simp
qed

lemma Split_last:
  assumes "Index a ''::'' = None"
  shows "Split a ''::'' = [a]"
  using assms by (subst Split.simps) simp

text \<open>
  C4 (as amended). For every object whose namespace, groupVersion string, kind and
  name contain no \<open>::\<close>, and whose namespace, groupVersion string and kind do not end
  with a colon, decoding the encoded tracking key succeeds and returns exactly the
  four identity fields.
\<close>

theorem idParts_buildId:
  assumes "\<not> Contains (GetNamespace object) idSeparator"
    and "\<not> Contains (gvString (gvkGroupVersion (GetGroupVersionKind object))) idSeparator"
    and "\<not> Contains (Kind (GetGroupVersionKind object)) idSeparator"
    and "\<not> Contains (GetName object) idSeparator"
    and "\<not> HasSuffix (GetNamespace object) '':''"
    and "\<not> HasSuffix (gvString (gvkGroupVersion (GetGroupVersionKind object))) '':''"
    and "\<not> HasSuffix (Kind (GetGroupVersionKind object)) '':''"
  shows "idParts (buildId object) =
           Inr (GetNamespace object,
                gvString (gvkGroupVersion (GetGroupVersionKind object)),
                Kind (GetGroupVersionKind object),
                GetName object)"
proof -
  let ?ns = "GetNamespace object"
  let ?gv = "gvString (gvkGroupVersion (GetGroupVersionKind object))"
  let ?k = "Kind (GetGroupVersionKind object)"
  let ?n = "GetName object"
  have id: "buildId object = ?ns @ ''::'' @ ?gv @ ''::'' @ ?k @ ''::'' @ ?n"
    by (simp add: buildId_def idSeparator_def)
  have c: "Index ?ns ''::'' = None" "Index ?gv ''::'' = None" "Index ?k ''::'' = None"
    "Index ?n ''::'' = None"
    using assms(1-4) by (simp_all add: Contains_def idSeparator_def)
  have s: "\<not> suffix '':'' ?ns" "\<not> suffix '':'' ?gv" "\<not> suffix '':'' ?k"
    using assms(5-7) by (simp_all add: HasSuffix_def)
  have "Split (buildId object) ''::'' = ?ns # Split (?gv @ ''::'' @ ?k @ ''::'' @ ?n) ''::''"
    unfolding id using c(1) s(1) by (rule Split_field)
  also have "Split (?gv @ ''::'' @ ?k @ ''::'' @ ?n) ''::'' = ?gv # Split (?k @ ''::'' @ ?n) ''::''"
    using c(2) s(2) by (rule Split_field)
  also have "Split (?k @ ''::'' @ ?n) ''::'' = ?k # Split ?n ''::''"
    using c(3) s(3) by (rule Split_field)
  also have "Split ?n ''::'' = [?n]"
    using c(4) by (rule Split_last)
  finally have "Split (buildId object) ''::'' = [?ns, ?gv, ?k, ?n]" .
  then show ?thesis
    by (simp add: idParts_def idSeparator_def)
qed

theorem idParts_buildId_witness:
  "idParts (buildId \<lparr>apiVersion = ''apps/v1'', kind = ''Deployment'', namespace = ''prod'',
                     name = ''web'', resourceVersion = ''7'', spec = None, status = None\<rparr>)
     = Inr (''prod'', ''apps/v1'', ''Deployment'', ''web'')"
proof -
  let ?o = "\<lparr>apiVersion = ''apps/v1'', kind = ''Deployment'', namespace = ''prod'',
             name = ''web'', resourceVersion = ''7'', spec = None, status = None\<rparr>"
  have gvk: "GetGroupVersionKind ?o = GroupVersionKind ''apps'' ''v1'' ''Deployment''"
    by (simp add: GetGroupVersionKind_def ParseGroupVersion_def WithKind_def)
  have gv: "gvString (gvkGroupVersion (GetGroupVersionKind ?o)) = ''apps/v1''"
    by (simp add: gvk gvkGroupVersion_def gvString_def)
  have k: "Kind (GetGroupVersionKind ?o) = ''Deployment''"
    by (simp add: gvk)
  have "idParts (buildId ?o) =
          Inr (GetNamespace ?o, gvString (gvkGroupVersion (GetGroupVersionKind ?o)),
               Kind (GetGroupVersionKind ?o), GetName ?o)"
    by (rule idParts_buildId)
      (simp_all add: gv k Contains_def HasSuffix_def idSeparator_def suffix_def)
  then show ?thesis
    by (simp only: gv k unstructured.simps)
qed

text \<open>
  C4, as the claim states it, fails: the namespace \<open>a:\<close> contains no \<open>::\<close>, but the
  key \<open>a:::v1::Pod::n\<close> is cut at its leftmost \<open>::\<close>, so the decoded namespace is
  \<open>a\<close> and the decoded groupVersion is \<open>:v1\<close>.
\<close>

theorem idParts_buildId_counterexample:
  "\<not> Contains ''a:'' idSeparator \<and> \<not> Contains ''v1'' idSeparator \<and>
   \<not> Contains ''Pod'' idSeparator \<and> \<not> Contains ''n'' idSeparator \<and>
   GetNamespace \<lparr>apiVersion = ''v1'', kind = ''Pod'', namespace = ''a:'', name = ''n'',
      resourceVersion = [], spec = None, status = None\<rparr> = ''a:'' \<and>
   gvString (gvkGroupVersion (GetGroupVersionKind \<lparr>apiVersion = ''v1'', kind = ''Pod'',
      namespace = ''a:'', name = ''n'', resourceVersion = [], spec = None, status = None\<rparr>)) = ''v1'' \<and>
   Kind (GetGroupVersionKind \<lparr>apiVersion = ''v1'', kind = ''Pod'',
      namespace = ''a:'', name = ''n'', resourceVersion = [], spec = None, status = None\<rparr>) = ''Pod'' \<and>
   idParts (buildId \<lparr>apiVersion = ''v1'', kind = ''Pod'', namespace = ''a:'', name = ''n'',
      resourceVersion = [], spec = None, status = None\<rparr>) = Inr (''a'', '':v1'', ''Pod'', ''n'')"
  by (simp add: Contains_def idSeparator_def GetGroupVersionKind_def ParseGroupVersion_def
      WithKind_def gvkGroupVersion_def gvString_def buildId_def idParts_def Split.simps)

text \<open>
  C5. For every input string, \<open>idParts\<close> returns the four parts exactly when
  splitting the string by \<open>::\<close> yields exactly four parts, and fails with a format
  error, returning no fields, for any string whose split has another number of parts.
\<close>

theorem idParts_format:
  "(length (Split ident idSeparator) = 4 \<longrightarrow>
      idParts ident = Inr (Split ident idSeparator ! 0, Split ident idSeparator ! 1,
                           Split ident idSeparator ! 2, Split ident idSeparator ! 3)) \<and>
   (length (Split ident idSeparator) \<noteq> 4 \<longrightarrow> idParts ident = Inl (FormatError ident)) \<and>
   ((\<exists>fields. idParts ident = Inr fields) \<longleftrightarrow> length (Split ident idSeparator) = 4)"
  by (auto simp: idParts_def Let_def)

theorem idParts_format_witness:
  "idParts ''default::apps/v1::Deployment::web'' =
     Inr (''default'', ''apps/v1'', ''Deployment'', ''web'') \<and>
   idParts ''default::web'' = Inl (FormatError ''default::web'') \<and>
   idParts ''a::b::c::d::e'' = Inl (FormatError ''a::b::c::d::e'')"
proof -
  have s1: "Split ''default::apps/v1::Deployment::web'' idSeparator =
              [''default'', ''apps/v1'', ''Deployment'', ''web'']"
    by (simp add: idSeparator_def Split.simps)
  have s2: "Split ''default::web'' idSeparator = [''default'', ''web'']"
    by (simp add: idSeparator_def Split.simps)
  have s3: "Split ''a::b::c::d::e'' idSeparator = [''a'', ''b'', ''c'', ''d'', ''e'']"
    by (simp add: idSeparator_def Split.simps)
  show ?thesis
    using idParts_format [of "''default::apps/v1::Deployment::web''"]
      idParts_format [of "''default::web''"] idParts_format [of "''a::b::c::d::e''"]
    by (simp add: s1 s2 s3)
qed

section \<open>Facts about the concrete instance\<close>

lemma demoLibs_simps:
  "Marshal demoLibs = demoMarshal"
  "ConvertToVersion demoLibs u gv =
     (if Group gv = [] \<or> Group gv = ''apps'' then Inr (kind u) else Inl NoMatch)"
  "NewPatchMetaFromStruct demoLibs typed = Inr typed"
  "CreateMergePatch demoLibs old new = (if old = new then (Some ''{}'', None) else (Some new, None))"
  "CreateThreeWayMergePatch demoLibs orig new old pm ow =
     (if old = new
      then (if orig = new then (Some ''{}'', None)
            else (Some ''{metadata:{resourceVersion:null}}'', None))
      else (Some new, None))"
  "StatusViewerFor demoLibs gk = Inl (LibError ''no status viewer has been implemented'')"
  "Decode demoLibs = decodeStatus"
  "DecodeDocuments demoLibs text = (if text = [] then []
        else [Inr None, Inr (Some \<lparr>apiVersion = ''v1'', kind = ''ConfigMap'', namespace = [],
                name = text, resourceVersion = [], spec = None, status = None\<rparr>)])"
  by (simp_all add: demoLibs_def)

lemma demoClient_simps:
  "onCreate demoClient object = Inr (object\<lparr>resourceVersion := ''1''\<rparr>)"
  "onGet demoClient n objectKey object =
     (if objectKey = ObjectKey ''default'' ''cm'' \<and> GetAPIVersion object = ''v1''
         \<and> GetKind object = ''ConfigMap'' \<and> n < 3
      then Inr (object\<lparr>resourceVersion := ''1'',
                  status := Some (JMap (fmupd ''readyReplicas'' (JInt 0) fmempty))\<rparr>)
      else Inl NotFound)"
  "onPatch demoClient object patchType data = None"
  "onDelete demoClient object cascade =
     (if GetAPIVersion object = ''v1'' \<and> GetKind object = ''ConfigMap''
         \<and> GetNamespace object = ''default'' \<and> GetName object = ''cm''
      then None else Some NotFound)"
  "calls demoClient = []"
  by (simp_all add: demoClient_def)

lemma crontab_simps:
  "apiVersion crontab = ''stable.example.com/v1''" "kind crontab = ''CronTab''"
  "namespace crontab = ''default''" "name crontab = ''job''" "resourceVersion crontab = []"
  "spec crontab = None" "status crontab = None"
  by (simp_all add: crontab_def)

lemma deployment_simps:
  "apiVersion deployment = ''apps/v1''" "kind deployment = ''Deployment''"
  "namespace deployment = ''default''" "name deployment = ''web''"
  "resourceVersion deployment = []" "spec deployment = None" "status deployment = None"
  by (simp_all add: deployment_def)

lemma configMap_simps:
  "apiVersion configMap = ''v1''" "kind configMap = ''ConfigMap''"
  "namespace configMap = ''default''" "name configMap = ''cm''"
  "resourceVersion configMap = []" "spec configMap = None" "status configMap = None"
  by (simp_all add: configMap_def)

lemma service_simps:
  "apiVersion (service t st) = ''v1''" "kind (service t st) = ''Service''"
  "spec (service t st) = Some (JMap (fmupd ''type'' (JString t) fmempty))"
  "status (service t st) = Some st"
  by (simp_all add: service_def)

lemma widget_simps:
  "apiVersion (widget st) = ''example.com/v1''" "kind (widget st) = ''Widget''"
  "spec (widget st) = None" "status (widget st) = Some st"
  by (simp_all add: widget_def)

lemma demoData_simps:
  "Id (demoData ident t) = ident" "namespaceAttr (demoData ident t) = []"
  "content (demoData ident t) = ''cm''" "contentOld (demoData ident t) = ''cm''"
  "delete_cascade (demoData ident t) = False" "TimeoutCreate (demoData ident t) = t"
  "TimeoutUpdate (demoData ident t) = t" "TimeoutDelete (demoData ident t) = t"
  by (simp_all add: demoData_def)

lemmas gvk_simps = GetGroupVersionKind_def ParseGroupVersion_def WithKind_def
  gvkGroupVersion_def gvkGroupKind_def gvString_def

lemma fcard_pos: "(0 < fcard A) = (A \<noteq> {||})"
  by (metis fcard_fempty fcard_seteq fempty_fsubsetI less_nat_zero_code
      linorder_le_less_linear not_gr_zero)

lemma decodeStatus_simps:
  "decodeStatus (JMap fmempty) = Inr \<lparr>ReadyReplicas = None, Phase = None, LoadBalancer = None\<rparr>"
  "decodeStatus (JMap (fmupd ''loadBalancer'' (JMap lb) fmempty))
     = Inr \<lparr>ReadyReplicas = None, Phase = None, LoadBalancer = Some lb\<rparr>"
  "decodeStatus (JMap (fmupd ''readyReplicas'' (JInt n) (fmupd ''phase'' (JString p) fmempty)))
     = Inr \<lparr>ReadyReplicas = Some n, Phase = Some p, LoadBalancer = None\<rparr>"
  "decodeStatus (JMap (fmupd ''readyReplicas'' (JInt n) fmempty))
     = Inr \<lparr>ReadyReplicas = Some n, Phase = None, LoadBalancer = None\<rparr>"
  "decodeStatus (JMap (fmupd ''phase'' (JString p) fmempty))
     = Inr \<lparr>ReadyReplicas = None, Phase = Some p, LoadBalancer = None\<rparr>"
  by (simp_all add: decodeStatus_def lookupField_def decodeInt_def decodeString_def decodeMap_def)

lemma idParts_demo:
  "idParts ''default::v1::ConfigMap::cm'' = Inr (''default'', ''v1'', ''ConfigMap'', ''cm'')"
  by (simp add: idParts_def idSeparator_def Split.simps)

lemma contentToObject_demo:
  "contentToObject demoLibs ''cm'' = Inr (configMap\<lparr>namespace := []\<rparr>)"
  by (simp add: contentToObject_def demoLibs_simps configMap_def)

lemma readyStatus_demo:
  "readyStatus demoLibs (configMap\<lparr>resourceVersion := ''1'',
       status := Some (JMap (fmupd ''readyReplicas'' (JInt 0) fmempty))\<rparr>)
     = (Some (configMap\<lparr>resourceVersion := ''1'',
          status := Some (JMap (fmupd ''readyReplicas'' (JInt 0) fmempty))\<rparr>), ''pending'', None)"
  by (simp add: readyStatus_def demoLibs_simps decodeStatus_simps)

section \<open>Properties of the patch engine\<close>

text \<open>
  C1. Once the three objects are serialised, \<open>createPatch\<close> selects the strategy by
  the conversion of the target in the native scheme: when the conversion fails, the
  result is the two-way merge patch of the serialised current and target objects,
  with strategy merge; when it succeeds, the strategy is strategic-merge and, with
  the patch metadata derived from the converted object, the result is the three-way
  patch of (original, target, current).
\<close>

theorem createPatch_strategy:
  assumes "Marshal L current = Inr oldData"
    and "Marshal L original = Inr originalData"
    and "Marshal L target = Inr newData"
  shows "(\<forall>err. ConvertToVersion L target (gvkGroupVersion (GetGroupVersionKind target)) = Inl err \<longrightarrow>
            createPatch L target original current =
              (fst (CreateMergePatch L oldData newData), MergePatchType,
               snd (CreateMergePatch L oldData newData))) \<and>
         (\<forall>typed. ConvertToVersion L target (gvkGroupVersion (GetGroupVersionKind target)) = Inr typed \<longrightarrow>
            fst (snd (createPatch L target original current)) = StrategicMergePatchType \<and>
            (\<forall>patchMeta. NewPatchMetaFromStruct L typed = Inr patchMeta \<longrightarrow>
               createPatch L target original current =
                 (fst (CreateThreeWayMergePatch L originalData newData oldData patchMeta True),
                  StrategicMergePatchType,
                  snd (CreateThreeWayMergePatch L originalData newData oldData patchMeta True))))"
  using assms
  by (auto simp: createPatch_def convert_def split: sum.splits)

theorem createPatch_strategy_witness:
  "createPatch demoLibs (crontab\<lparr>resourceVersion := ''9''\<rparr>) crontab crontab =
     (Some ''stable.example.com/v1|CronTab|default|job|9'', MergePatchType, None) \<and>
   createPatch demoLibs (deployment\<lparr>resourceVersion := ''9''\<rparr>) deployment deployment =
     (Some ''apps/v1|Deployment|default|web|9'', StrategicMergePatchType, None)"
proof -
  have c: "Marshal demoLibs crontab = Inr ''stable.example.com/v1|CronTab|default|job|''"
    by (simp add: demoLibs_simps demoMarshal_def crontab_simps)
  have c9: "Marshal demoLibs (crontab\<lparr>resourceVersion := ''9''\<rparr>)
              = Inr ''stable.example.com/v1|CronTab|default|job|9''"
    by (simp add: demoLibs_simps demoMarshal_def crontab_simps)
  have d: "Marshal demoLibs deployment = Inr ''apps/v1|Deployment|default|web|''"
    by (simp add: demoLibs_simps demoMarshal_def deployment_simps)
  have d9: "Marshal demoLibs (deployment\<lparr>resourceVersion := ''9''\<rparr>)
              = Inr ''apps/v1|Deployment|default|web|9''"
    by (simp add: demoLibs_simps demoMarshal_def deployment_simps)
  have cv: "ConvertToVersion demoLibs (crontab\<lparr>resourceVersion := ''9''\<rparr>)
              (gvkGroupVersion (GetGroupVersionKind (crontab\<lparr>resourceVersion := ''9''\<rparr>))) = Inl NoMatch"
    by (simp add: gvk_simps demoLibs_simps crontab_simps)
  have dv: "ConvertToVersion demoLibs (deployment\<lparr>resourceVersion := ''9''\<rparr>)
              (gvkGroupVersion (GetGroupVersionKind (deployment\<lparr>resourceVersion := ''9''\<rparr>)))
              = Inr ''Deployment''"
    by (simp add: gvk_simps demoLibs_simps deployment_simps)
  have dm: "NewPatchMetaFromStruct demoLibs ''Deployment'' = Inr ''Deployment''"
    by (simp add: demoLibs_simps)
  from createPatch_strategy [OF c c c9] cv
  have 1: "createPatch demoLibs (crontab\<lparr>resourceVersion := ''9''\<rparr>) crontab crontab =
     (Some ''stable.example.com/v1|CronTab|default|job|9'', MergePatchType, None)"
    by (simp add: demoLibs_simps)
  from createPatch_strategy [OF d d d9] dv dm
  have 2: "createPatch demoLibs (deployment\<lparr>resourceVersion := ''9''\<rparr>) deployment deployment =
     (Some ''apps/v1|Deployment|default|web|9'', StrategicMergePatchType, None)"
    by (simp add: demoLibs_simps)
  from 1 2 show ?thesis by simp
qed





section \<open>Properties of the readiness refresh\<close>

text \<open>
  C6 (as amended). The readiness refresh classifies the object it fetched. For a
  fetched object with a status field, no status viewer and a status that decodes into
  the status struct: \<open>readyReplicas\<close>, when present, decides (ready iff positive);
  else \<open>phase\<close>, when present, decides (ready iff one of the six phases, compared
  exactly); else, when no load-balancer status is present, or the object is a \<open>v1\<close>
  \<open>Service\<close> whose \<open>spec.type\<close> is present and is not \<open>LoadBalancer\<close>, the object is
  ready.
\<close>

theorem readyStatus_priority:
  assumes "status object = Some s"
    and "StatusViewerFor L (gvkGroupKind (GetGroupVersionKind object)) = Inl noViewer"
    and "Decode L s = Inr st"
  shows "(\<forall>(c::client) objectKey stale.
            onGet c (length (calls c)) objectKey stale = Inr object \<longrightarrow>
            fst (readyRefresh L objectKey (c, stale)) = readyStatus L object) \<and>
         (\<forall>n. ReadyReplicas st = Some n \<longrightarrow>
            readyStatus L object = (Some object, if n > 0 then ''ready'' else ''pending'', None)) \<and>
         (\<forall>p. ReadyReplicas st = None \<and> Phase st = Some p \<longrightarrow>
            readyStatus L object = (Some object, if p \<in> readyPhases then ''ready'' else ''pending'', None)) \<and>
         (ReadyReplicas st = None \<and> Phase st = None \<and> LoadBalancer st = None \<longrightarrow>
            readyStatus L object = (Some object, ''ready'', None)) \<and>
         (\<forall>lb specMap t. ReadyReplicas st = None \<and> Phase st = None \<and> LoadBalancer st = Some lb \<and>
            GetAPIVersion object = ''v1'' \<and> GetKind object = ''Service'' \<and>
            spec object = Some (JMap specMap) \<and> fmlookup specMap ''type'' = Some t \<and>
            t \<noteq> JString ''LoadBalancer'' \<longrightarrow>
            readyStatus L object = (Some object, ''ready'', None))"
  using assms by (simp add: readyStatus_def readyPhases_def readyRefresh_def clientGet_def)

theorem readyStatus_priority_witness:
  "readyStatus demoLibs (widget (JMap (fmupd ''readyReplicas'' (JInt 2)
       (fmupd ''phase'' (JString ''Pending'') fmempty))))
     = (Some (widget (JMap (fmupd ''readyReplicas'' (JInt 2)
          (fmupd ''phase'' (JString ''Pending'') fmempty)))), ''ready'', None) \<and>
   readyStatus demoLibs (widget (JMap (fmupd ''readyReplicas'' (JInt 0)
       (fmupd ''phase'' (JString ''Running'') fmempty))))
     = (Some (widget (JMap (fmupd ''readyReplicas'' (JInt 0)
          (fmupd ''phase'' (JString ''Running'') fmempty)))), ''pending'', None) \<and>
   readyStatus demoLibs (widget (JMap (fmupd ''phase'' (JString ''Running'') fmempty)))
     = (Some (widget (JMap (fmupd ''phase'' (JString ''Running'') fmempty))), ''ready'', None) \<and>
   readyStatus demoLibs (widget (JMap (fmupd ''phase'' (JString ''running'') fmempty)))
     = (Some (widget (JMap (fmupd ''phase'' (JString ''running'') fmempty))), ''pending'', None) \<and>
   readyStatus demoLibs (service ''ClusterIP''
       (JMap (fmupd ''loadBalancer'' (JMap fmempty) fmempty)))
     = (Some (service ''ClusterIP'' (JMap (fmupd ''loadBalancer'' (JMap fmempty) fmempty))),
        ''ready'', None)"
proof -
  have v: "StatusViewerFor demoLibs gk = Inl (LibError ''no status viewer has been implemented'')"
    for gk by (simp add: demoLibs_simps)
  have d: "Decode demoLibs = decodeStatus"
    by (simp add: demoLibs_simps)
  note w = readyStatus_priority [where L = demoLibs, OF widget_simps(4) v]
  note s = readyStatus_priority [where L = demoLibs, OF service_simps(4) v]
  have 1: "readyStatus demoLibs (widget (JMap (fmupd ''readyReplicas'' (JInt 2)
       (fmupd ''phase'' (JString ''Pending'') fmempty))))
     = (Some (widget (JMap (fmupd ''readyReplicas'' (JInt 2)
          (fmupd ''phase'' (JString ''Pending'') fmempty)))), ''ready'', None)"
    using w [of _ "\<lparr>ReadyReplicas = Some 2, Phase = Some ''Pending'', LoadBalancer = None\<rparr>"]
    by (simp add: d decodeStatus_simps)
  have 2: "readyStatus demoLibs (widget (JMap (fmupd ''readyReplicas'' (JInt 0)
       (fmupd ''phase'' (JString ''Running'') fmempty))))
     = (Some (widget (JMap (fmupd ''readyReplicas'' (JInt 0)
          (fmupd ''phase'' (JString ''Running'') fmempty)))), ''pending'', None)"
    using w [of _ "\<lparr>ReadyReplicas = Some 0, Phase = Some ''Running'', LoadBalancer = None\<rparr>"]
    by (simp add: d decodeStatus_simps)
  have 3: "readyStatus demoLibs (widget (JMap (fmupd ''phase'' (JString ''Running'') fmempty)))
     = (Some (widget (JMap (fmupd ''phase'' (JString ''Running'') fmempty))), ''ready'', None)"
    using w [of _ "\<lparr>ReadyReplicas = None, Phase = Some ''Running'', LoadBalancer = None\<rparr>"]
    by (simp add: d decodeStatus_simps readyPhases_def)
  have 4: "readyStatus demoLibs (widget (JMap (fmupd ''phase'' (JString ''running'') fmempty)))
     = (Some (widget (JMap (fmupd ''phase'' (JString ''running'') fmempty))), ''pending'', None)"
    using w [of _ "\<lparr>ReadyReplicas = None, Phase = Some ''running'', LoadBalancer = None\<rparr>"]
    by (simp add: d decodeStatus_simps readyPhases_def)
  have 5: "readyStatus demoLibs (service ''ClusterIP''
       (JMap (fmupd ''loadBalancer'' (JMap fmempty) fmempty)))
     = (Some (service ''ClusterIP'' (JMap (fmupd ''loadBalancer'' (JMap fmempty) fmempty))),
        ''ready'', None)"
    using s [of _ "\<lparr>ReadyReplicas = None, Phase = None, LoadBalancer = Some fmempty\<rparr>"]
    by (simp add: d decodeStatus_simps service_simps)
  from 1 2 3 4 5 show ?thesis by simp
qed

text \<open>
  C6, as the claim states it, fails. A status \<open>{phase: 5}\<close> has a phase, which is not
  one of the six names, but the object is classified neither pending nor ready: the
  decoding fails and the refresh returns the error. And for a \<open>v1\<close> \<open>Service\<close>
  without a spec, whose status holds only a load-balancer entry, no rule applies, but
  the refresh returns the state \<open>error\<close> and a \<open>nil\<close> object instead of ready.
\<close>

theorem readyStatus_priority_counterexample:
  "readyStatus demoLibs (widget (JMap (fmupd ''phase'' (JInt 5) fmempty)))
     = (None, ''error'', Some (LibError ''error(s) decoding'')) \<and>
   readyStatus demoLibs
      \<lparr>apiVersion = ''v1'', kind = ''Service'', namespace = ''default'', name = ''lb'',
       resourceVersion = ''1'', spec = None,
       status = Some (JMap (fmupd ''loadBalancer'' (JMap fmempty) fmempty))\<rparr>
     = (None, ''error'', None) \<and>
   ''error'' \<noteq> ''ready'' \<and> ''error'' \<noteq> ''pending''"
  by (simp add: readyStatus_def demoLibs_simps widget_simps decodeStatus_simps decodeStatus_def
      lookupField_def decodeInt_def decodeString_def decodeMap_def)

text \<open>
  C7 (as amended). With \<open>readyReplicas\<close> and \<open>phase\<close> absent and a load-balancer
  status present, the load-balancer rule is checked for every kind, except that for a
  \<open>v1\<close> \<open>Service\<close> (whose spec is a map with a \<open>type\<close>) it is checked only when
  \<open>spec.type\<close> is \<open>LoadBalancer\<close>; when checked, the object is ready iff the
  load-balancer status map has at least one key.
\<close>

theorem readyStatus_loadBalancer:
  assumes "status object = Some s"
    and "StatusViewerFor L (gvkGroupKind (GetGroupVersionKind object)) = Inl noViewer"
    and "Decode L s = Inr st"
    and "ReadyReplicas st = None" and "Phase st = None" and "LoadBalancer st = Some lb"
  shows "(\<not> (GetAPIVersion object = ''v1'' \<and> GetKind object = ''Service'') \<longrightarrow>
            readyStatus L object =
              (Some object, if 0 < fcard (fmdom lb) then ''ready'' else ''pending'', None)) \<and>
         (GetAPIVersion object = ''v1'' \<and> GetKind object = ''Service'' \<longrightarrow>
            (\<forall>specMap t. spec object = Some (JMap specMap) \<and> fmlookup specMap ''type'' = Some t \<longrightarrow>
               readyStatus L object =
                 (Some object,
                  if t = JString ''LoadBalancer''
                  then (if 0 < fcard (fmdom lb) then ''ready'' else ''pending'')
                  else ''ready'', None)))"
  using assms by (auto simp: readyStatus_def fcard_pos)

theorem readyStatus_loadBalancer_witness:
  "readyStatus demoLibs (service ''LoadBalancer''
       (JMap (fmupd ''loadBalancer'' (JMap fmempty) fmempty)))
     = (Some (service ''LoadBalancer'' (JMap (fmupd ''loadBalancer'' (JMap fmempty) fmempty))),
        ''pending'', None) \<and>
   readyStatus demoLibs (widget (JMap (fmupd ''loadBalancer''
       (JMap (fmupd ''ingress'' (JList [JMap (fmupd ''ip'' (JString ''10.0.0.1'') fmempty)]) fmempty))
       fmempty)))
     = (Some (widget (JMap (fmupd ''loadBalancer''
          (JMap (fmupd ''ingress'' (JList [JMap (fmupd ''ip'' (JString ''10.0.0.1'') fmempty)]) fmempty))
          fmempty))), ''ready'', None)"
proof -
  have v: "StatusViewerFor demoLibs gk = Inl (LibError ''no status viewer has been implemented'')"
    for gk by (simp add: demoLibs_simps)
  have d: "Decode demoLibs = decodeStatus"
    by (simp add: demoLibs_simps)
  have 1: "readyStatus demoLibs (service ''LoadBalancer''
       (JMap (fmupd ''loadBalancer'' (JMap fmempty) fmempty)))
     = (Some (service ''LoadBalancer'' (JMap (fmupd ''loadBalancer'' (JMap fmempty) fmempty))),
        ''pending'', None)"
    using readyStatus_loadBalancer [where L = demoLibs and lb = fmempty,
        OF service_simps(4) v, of _ "\<lparr>ReadyReplicas = None, Phase = None, LoadBalancer = Some fmempty\<rparr>"]
    by (simp add: d decodeStatus_simps service_simps)
  have 2: "readyStatus demoLibs (widget (JMap (fmupd ''loadBalancer''
       (JMap (fmupd ''ingress'' (JList [JMap (fmupd ''ip'' (JString ''10.0.0.1'') fmempty)]) fmempty))
       fmempty)))
     = (Some (widget (JMap (fmupd ''loadBalancer''
          (JMap (fmupd ''ingress'' (JList [JMap (fmupd ''ip'' (JString ''10.0.0.1'') fmempty)]) fmempty))
          fmempty))), ''ready'', None)"
    using readyStatus_loadBalancer [where L = demoLibs
        and lb = "fmupd ''ingress'' (JList [JMap (fmupd ''ip'' (JString ''10.0.0.1'') fmempty)]) fmempty",
        OF widget_simps(4) v,
        of _ "\<lparr>ReadyReplicas = None, Phase = None, LoadBalancer =
                 Some (fmupd ''ingress'' (JList [JMap (fmupd ''ip'' (JString ''10.0.0.1'') fmempty)]) fmempty)\<rparr>"]
    by (simp add: d decodeStatus_simps widget_simps fcard_pos)
  from 1 2 show ?thesis by simp
qed

text \<open>
  C7, as the claim states it, fails: a \<open>v1\<close> \<open>Service\<close> of type \<open>LoadBalancer\<close> with
  status \<open>{loadBalancer: {ingress: []}}\<close> is classified ready, because the
  load-balancer map has the key \<open>ingress\<close>.
\<close>

theorem readyStatus_loadBalancer_counterexample:
  "readyStatus demoLibs (service ''LoadBalancer''
       (JMap (fmupd ''loadBalancer'' (JMap (fmupd ''ingress'' (JList []) fmempty)) fmempty)))
     = (Some (service ''LoadBalancer''
          (JMap (fmupd ''loadBalancer'' (JMap (fmupd ''ingress'' (JList []) fmempty)) fmempty))),
        ''ready'', None) \<and>
   ''ready'' \<noteq> ''pending''"
  by (simp add: readyStatus_def demoLibs_simps decodeStatus_simps service_simps fcard_pos)

text \<open>
  C8 (as amended). An object whose status key is missing is classified ready at once,
  and an object whose status is the empty object \<open>{}\<close>, with no status viewer, is
  classified ready as well, since no rule applies to it.
\<close>

theorem readyStatus_empty_status:
  "(status object = None \<longrightarrow> readyStatus L object = (Some object, ''ready'', None)) \<and>
   (\<forall>noViewer. status object = Some (JMap fmempty) \<and>
      StatusViewerFor L (gvkGroupKind (GetGroupVersionKind object)) = Inl noViewer \<and>
      Decode L (JMap fmempty) = Inr \<lparr>ReadyReplicas = None, Phase = None, LoadBalancer = None\<rparr> \<longrightarrow>
      readyStatus L object = (Some object, ''ready'', None))"
  by (simp add: readyStatus_def)

theorem readyStatus_empty_status_witness:
  "readyStatus demoLibs crontab = (Some crontab, ''ready'', None) \<and>
   readyStatus demoLibs (widget (JMap fmempty)) = (Some (widget (JMap fmempty)), ''ready'', None)"
proof -
  have v: "StatusViewerFor demoLibs gk = Inl (LibError ''no status viewer has been implemented'')"
    for gk by (simp add: demoLibs_simps)
  have d: "Decode demoLibs (JMap fmempty)
             = Inr \<lparr>ReadyReplicas = None, Phase = None, LoadBalancer = None\<rparr>"
    by (simp add: demoLibs_simps decodeStatus_simps)
  from readyStatus_empty_status [of crontab demoLibs] crontab_simps(7)
  have 1: "readyStatus demoLibs crontab = (Some crontab, ''ready'', None)"
    by simp
  from readyStatus_empty_status [of "widget (JMap fmempty)" demoLibs] widget_simps(4) v d
  have 2: "readyStatus demoLibs (widget (JMap fmempty)) = (Some (widget (JMap fmempty)), ''ready'', None)"
    by blast
  from 1 2 show ?thesis by simp
qed

text \<open>
  C8, as the claim states it, fails: with status \<open>{}\<close> and no status viewer the
  classification is ready, not pending.
\<close>

theorem readyStatus_empty_status_counterexample:
  "status (widget (JMap fmempty)) = Some (JMap fmempty) \<and>
   StatusViewerFor demoLibs (gvkGroupKind (GetGroupVersionKind (widget (JMap fmempty))))
      = Inl (LibError ''no status viewer has been implemented'') \<and>
   readyStatus demoLibs (widget (JMap fmempty)) = (Some (widget (JMap fmempty)), ''ready'', None) \<and>
   ''ready'' \<noteq> ''pending''"
  by (simp add: readyStatus_def demoLibs_simps decodeStatus_simps widget_simps)

section \<open>Properties of the delete wait\<close>

lemma clientGet_simps:
  "fst (clientGet c key obj) = onGet c (length (calls c)) key obj"
  "onGet (snd (clientGet c key obj)) = onGet c"
  "calls (snd (clientGet c key obj)) = calls c @ [GetCall key obj]"
  by (simp_all add: clientGet_def)

lemma deleteRefresh_fetched:
  assumes "onGet c (length (calls c)) key obj = Inr fetched"
  shows "deleteRefresh key (c, obj) =
           ((Some fetched, ''deleting'', None), snd (clientGet c key obj), fetched)"
  using assms by (simp add: deleteRefresh_def clientGet_def)

lemma deleteRefresh_error:
  assumes "onGet c (length (calls c)) key obj = Inl err"
  shows "deleteRefresh key (c, obj) =
           (if err = NotFound then ((Some obj, ''deleted'', None), snd (clientGet c key obj), obj)
            else ((None, ''error'', Some err), snd (clientGet c key obj), obj))"
  using assms by (simp add: deleteRefresh_def clientGet_def IsNotFound_def)

lemma fetchesSucceed_step:
  assumes "fetchesSucceed c key object (Suc m)" and "sameIdentity obj object"
  shows "\<exists>fetched. onGet c (length (calls c)) key obj = Inr fetched \<and>
           sameIdentity fetched object \<and>
           fetchesSucceed (snd (clientGet c key obj)) key object m"
proof -
  have "length (calls c) \<le> length (calls c) \<and> length (calls c) < length (calls c) + Suc m \<and>
        sameIdentity obj object"
    using assms(2) by simp
  with assms(1) have "\<exists>fetched. onGet c (length (calls c)) key obj = Inr fetched \<and>
      sameIdentity fetched object"
    unfolding fetchesSucceed_def by blast
  then obtain fetched
    where "onGet c (length (calls c)) key obj = Inr fetched" and "sameIdentity fetched object"
    by blast
  moreover from assms(1) have "fetchesSucceed (snd (clientGet c key obj)) key object m"
    by (auto simp: fetchesSucceed_def clientGet_def)
  ultimately show ?thesis by blast
qed

lemma fetchesSucceed_mono:
  assumes "fetchesSucceed c key object m" and "n \<le> m"
  shows "fetchesSucceed c key object n"
  unfolding fetchesSucceed_def
proof (intro allI impI)
  fix i obj
  assume "length (calls c) \<le> i \<and> i < length (calls c) + n \<and> sameIdentity obj object"
  with assms(2)
  have "length (calls c) \<le> i \<and> i < length (calls c) + m \<and> sameIdentity obj object"
    by simp
  with assms(1) show "\<exists>fetched. onGet c i key obj = Inr fetched \<and> sameIdentity fetched object"
    unfolding fetchesSucceed_def by blast
qed

lemma deleting_until_deadline:
  "fetchesSucceed c key object n \<Longrightarrow> sameIdentity obj object \<Longrightarrow>
   fst (WaitForState [''deleting''] [''deleted''] (deleteRefresh key) n lastState (c, obj))
     = (None, Some (TimeoutError (if n = 0 then lastState else ''deleting'')))"
proof (induction n arbitrary: c obj lastState)
  case 0
  then show ?case by simp
next
  case (Suc n)
  from fetchesSucceed_step [OF Suc.prems]
  obtain fetched where f: "onGet c (length (calls c)) key obj = Inr fetched"
    and same: "sameIdentity fetched object"
    and rest: "fetchesSucceed (snd (clientGet c key obj)) key object n"
    by blast
  have "fst (WaitForState [''deleting''] [''deleted''] (deleteRefresh key) (Suc n) lastState (c, obj))
      = fst (WaitForState [''deleting''] [''deleted''] (deleteRefresh key) n ''deleting''
               (snd (clientGet c key obj), fetched))"
    by (simp add: deleteRefresh_fetched [OF f])
  also have "\<dots> = (None, Some (TimeoutError (if n = 0 then ''deleting'' else ''deleting'')))"
    by (rule Suc.IH [OF rest same])
  finally show ?case by simp
qed

lemma deleting_until_error:
  "fetchesSucceed c key object m \<Longrightarrow> m < n \<Longrightarrow> sameIdentity obj object \<Longrightarrow>
   fetchFails c key object (length (calls c) + m) err \<Longrightarrow>
   \<exists>res. fst (WaitForState [''deleting''] [''deleted''] (deleteRefresh key) n lastState (c, obj))
     = (if err = NotFound then (Some res, None) else (None, Some err))"
proof (induction m arbitrary: c obj lastState n)
  case 0
  then obtain n' where n: "n = Suc n'" by (cases n) auto
  from 0 have e: "onGet c (length (calls c)) key obj = Inl err"
    by (simp add: fetchFails_def)
  show ?case
    by (simp add: n deleteRefresh_error [OF e])
next
  case (Suc m)
  then obtain n' where n: "n = Suc n'" and mn: "m < n'" by (cases n) auto
  from fetchesSucceed_step [OF Suc.prems(1) Suc.prems(3)]
  obtain fetched where f: "onGet c (length (calls c)) key obj = Inr fetched"
    and same: "sameIdentity fetched object"
    and rest: "fetchesSucceed (snd (clientGet c key obj)) key object m"
    by blast
  have e: "fetchFails (snd (clientGet c key obj)) key object
             (length (calls (snd (clientGet c key obj))) + m) err"
    using Suc.prems(4) by (simp add: fetchFails_def clientGet_simps)
  have "fst (WaitForState [''deleting''] [''deleted''] (deleteRefresh key) n lastState (c, obj))
      = fst (WaitForState [''deleting''] [''deleted''] (deleteRefresh key) n' ''deleting''
               (snd (clientGet c key obj), fetched))"
    by (simp add: n deleteRefresh_fetched [OF f])
  with Suc.IH [OF rest mn same e, where lastState = "''deleting''"]
  show ?case by simp
qed

lemma deleting_calls:
  "\<exists>gets. calls (fst (snd (WaitForState [''deleting''] [''deleted''] (deleteRefresh key) n
                             lastState (c, obj)))) = calls c @ gets \<and>
          (\<forall>x \<in> set gets. \<exists>fetched. x = GetCall key fetched) \<and>
          (0 < n \<longrightarrow> gets \<noteq> [] \<and> hd gets = GetCall key obj)"
proof (induction n arbitrary: c obj lastState)
  case 0
  show ?case by simp
next
  case (Suc n)
  show ?case
  proof (cases "onGet c (length (calls c)) key obj")
    case (Inl err)
    then show ?thesis
      by (simp add: deleteRefresh_error clientGet_simps)
  next
    case (Inr fetched)
    from Suc.IH [of "''deleting''" "snd (clientGet c key obj)" fetched]
    obtain gets where
      g: "calls (fst (snd (WaitForState [''deleting''] [''deleted''] (deleteRefresh key) n
            ''deleting'' (snd (clientGet c key obj), fetched))))
          = calls (snd (clientGet c key obj)) @ gets"
      and a: "\<forall>x \<in> set gets. \<exists>fetched. x = GetCall key fetched"
      by blast
    have "calls (fst (snd (WaitForState [''deleting''] [''deleted''] (deleteRefresh key) (Suc n)
            lastState (c, obj)))) = calls c @ (GetCall key obj # gets)"
      by (simp add: deleteRefresh_fetched [OF Inr] g clientGet_simps)
    moreover have "\<forall>x \<in> set (GetCall key obj # gets). \<exists>fetched. x = GetCall key fetched"
      using a by simp
    moreover have "GetCall key obj # gets \<noteq> [] \<and> hd (GetCall key obj # gets) = GetCall key obj"
      by simp
    ultimately show ?thesis
      by blast
  qed
qed

lemma objectFromId_fields:
  "objectFromId groupVersion k ns nm =
     \<lparr>apiVersion = gvString groupVersion, kind = k, namespace = ns, name = nm,
      resourceVersion = [], spec = None, status = None\<rparr>"
  by (simp add: objectFromId_def SetGroupVersionKind_def WithKind_def gvkGroupVersion_def
      emptyObject_def)

lemma delete_after_call:
  assumes "idParts (Id d) = Inr (ns, gv, k, nm)"
    and "ParseGroupVersion gv = Inr groupVersion"
    and "object = \<lparr>apiVersion = gvString groupVersion, kind = k, namespace = ns, name = nm,
                    resourceVersion = [], spec = None, status = None\<rparr>"
    and "onDelete c object (delete_cascade d) = None"
    and "c1 = c\<lparr>calls := calls c @ [DeleteCall object (delete_cascade d)]\<rparr>"
  shows "resourceK8sManifestDelete L d c =
     (case snd (fst (WaitForState [''deleting''] [''deleted'']
             (deleteRefresh (ObjectKey ns nm)) (TimeoutDelete d) [] (c1, object))) of
        Some err \<Rightarrow> Some (Wrap (''Error waiting for resource ('' @ Id d @ '') to be deleted'') err)
      | None \<Rightarrow> None,
      d,
      fst (snd (WaitForState [''deleting''] [''deleted'']
             (deleteRefresh (ObjectKey ns nm)) (TimeoutDelete d) [] (c1, object))))"
proof -
  have key: "ObjectKeyFromObject object = Inr (ObjectKey ns nm)"
    by (simp add: ObjectKeyFromObject_def assms(3))
  have ob: "objectFromId groupVersion k ns nm = object"
    by (simp add: objectFromId_fields assms(3))
  show ?thesis
    using assms(1,2,4)
    by (simp add: resourceK8sManifestDelete_def ob key clientDelete_def assms(5)
        split: prod.splits option.splits)
qed

text \<open>
  C9. Every refresh of the delete wait fetches the object by its key; \<open>NotFound\<close> is
  classified deleted, without an error; any other fetch error is returned as the
  error; a successful fetch is classified deleting. A delete decodes the identity from
  the ID: its remote delete call is for the object with the decoded apiVersion, kind,
  namespace and name, and, when that call succeeds, every later call is a fetch under
  the key of the decoded namespace and name, the first one of that object. If the
  first \<open>m\<close> fetches of the object succeed, then: if the deadline admits no more than
  \<open>m\<close> refreshes the operation fails with the timeout error; if the next fetch within
  the deadline is \<open>NotFound\<close> the operation succeeds; and if it is another error the
  operation fails with that error.
\<close>

theorem delete_wait:
  assumes "idParts (Id d) = Inr (ns, gv, k, nm)"
    and "ParseGroupVersion gv = Inr groupVersion"
    and "object = \<lparr>apiVersion = gvString groupVersion, kind = k, namespace = ns, name = nm,
                    resourceVersion = [], spec = None, status = None\<rparr>"
    and "onDelete c object (delete_cascade d) = None"
    and "c1 = c\<lparr>calls := calls c @ [DeleteCall object (delete_cascade d)]\<rparr>"
    and "fetchesSucceed c1 (ObjectKey ns nm) object m"
  shows "(\<forall>(c'::client) key obj. calls (fst (snd (deleteRefresh key (c', obj)))) = calls c' @ [GetCall key obj]) \<and>
         (\<forall>(c'::client) key obj. onGet c' (length (calls c')) key obj = Inl NotFound \<longrightarrow>
            fst (deleteRefresh key (c', obj)) = (Some obj, ''deleted'', None)) \<and>
         (\<forall>(c'::client) key obj err. onGet c' (length (calls c')) key obj = Inl err \<and> err \<noteq> NotFound \<longrightarrow>
            fst (deleteRefresh key (c', obj)) = (None, ''error'', Some err)) \<and>
         (\<forall>(c'::client) key obj fetched. onGet c' (length (calls c')) key obj = Inr fetched \<longrightarrow>
            fst (deleteRefresh key (c', obj)) = (Some fetched, ''deleting'', None)) \<and>
         (\<exists>gets. calls (snd (snd (resourceK8sManifestDelete L d c)))
                    = calls c @ DeleteCall object (delete_cascade d) # gets \<and>
                  (\<forall>x \<in> set gets. \<exists>fetched. x = GetCall (ObjectKey ns nm) fetched) \<and>
                  (0 < TimeoutDelete d \<longrightarrow>
                     gets \<noteq> [] \<and> hd gets = GetCall (ObjectKey ns nm) object)) \<and>
         (TimeoutDelete d \<le> m \<longrightarrow>
            fst (resourceK8sManifestDelete L d c) =
              Some (Wrap (''Error waiting for resource ('' @ Id d @ '') to be deleted'')
                     (TimeoutError (if TimeoutDelete d = 0 then [] else ''deleting'')))) \<and>
         (m < TimeoutDelete d \<and>
          fetchFails c (ObjectKey ns nm) object (Suc (length (calls c)) + m) NotFound \<longrightarrow>
            fst (resourceK8sManifestDelete L d c) = None) \<and>
         (\<forall>err. m < TimeoutDelete d \<and> err \<noteq> NotFound \<and>
          fetchFails c (ObjectKey ns nm) object (Suc (length (calls c)) + m) err \<longrightarrow>
            fst (resourceK8sManifestDelete L d c) =
              Some (Wrap (''Error waiting for resource ('' @ Id d @ '') to be deleted'') err))"
proof (intro conjI allI impI)
  fix c' :: client and key obj
  show "calls (fst (snd (deleteRefresh key (c', obj)))) = calls c' @ [GetCall key obj]"
    by (simp add: deleteRefresh_def clientGet_def split: sum.splits)
next
  fix c' :: client and key obj
  assume "onGet c' (length (calls c')) key obj = Inl NotFound"
  then show "fst (deleteRefresh key (c', obj)) = (Some obj, ''deleted'', None)"
    by (simp add: deleteRefresh_error)
next
  fix c' :: client and key obj err
  assume "onGet c' (length (calls c')) key obj = Inl err \<and> err \<noteq> NotFound"
  then show "fst (deleteRefresh key (c', obj)) = (None, ''error'', Some err)"
    by (simp add: deleteRefresh_error)
next
  fix c' :: client and key obj fetched
  assume "onGet c' (length (calls c')) key obj = Inr fetched"
  then show "fst (deleteRefresh key (c', obj)) = (Some fetched, ''deleting'', None)"
    by (simp add: deleteRefresh_fetched)
next
  have "\<exists>gets. calls (fst (snd (WaitForState [''deleting''] [''deleted'']
            (deleteRefresh (ObjectKey ns nm)) (TimeoutDelete d) [] (c1, object)))) = calls c1 @ gets \<and>
          (\<forall>x \<in> set gets. \<exists>fetched. x = GetCall (ObjectKey ns nm) fetched) \<and>
          (0 < TimeoutDelete d \<longrightarrow> gets \<noteq> [] \<and> hd gets = GetCall (ObjectKey ns nm) object)"
    by (rule deleting_calls)
  then obtain gets where
    gah: "calls (fst (snd (WaitForState [''deleting''] [''deleted''] (deleteRefresh (ObjectKey ns nm))
          (TimeoutDelete d) [] (c1, object)))) = calls c1 @ gets \<and>
      (\<forall>x \<in> set gets. \<exists>fetched. x = GetCall (ObjectKey ns nm) fetched) \<and>
      (0 < TimeoutDelete d \<longrightarrow> gets \<noteq> [] \<and> hd gets = GetCall (ObjectKey ns nm) object)" ..
  from gah have g: "calls (fst (snd (WaitForState [''deleting''] [''deleted'']
          (deleteRefresh (ObjectKey ns nm)) (TimeoutDelete d) [] (c1, object)))) = calls c1 @ gets"
    by (rule conjunct1)
  from gah have ah: "(\<forall>x \<in> set gets. \<exists>fetched. x = GetCall (ObjectKey ns nm) fetched) \<and>
      (0 < TimeoutDelete d \<longrightarrow> gets \<noteq> [] \<and> hd gets = GetCall (ObjectKey ns nm) object)"
    by (rule conjunct2)
  have cs: "calls c1 = calls c @ [DeleteCall object (delete_cascade d)]"
    unfolding assms(5) by simp
  have "calls (snd (snd (resourceK8sManifestDelete L d c)))
          = calls (fst (snd (WaitForState [''deleting''] [''deleted'']
          (deleteRefresh (ObjectKey ns nm)) (TimeoutDelete d) [] (c1, object))))"
    unfolding delete_after_call [OF assms(1-5)] by simp
  also have "\<dots> = calls c @ DeleteCall object (delete_cascade d) # gets"
    unfolding g cs by simp
  finally have e: "calls (snd (snd (resourceK8sManifestDelete L d c)))
          = calls c @ DeleteCall object (delete_cascade d) # gets" .
  from e ah have "calls (snd (snd (resourceK8sManifestDelete L d c)))
                    = calls c @ DeleteCall object (delete_cascade d) # gets \<and>
                  (\<forall>x \<in> set gets. \<exists>fetched. x = GetCall (ObjectKey ns nm) fetched) \<and>
                  (0 < TimeoutDelete d \<longrightarrow>
                     gets \<noteq> [] \<and> hd gets = GetCall (ObjectKey ns nm) object)"
    by (rule conjI)
  then show "\<exists>gets. calls (snd (snd (resourceK8sManifestDelete L d c)))
                    = calls c @ DeleteCall object (delete_cascade d) # gets \<and>
                  (\<forall>x \<in> set gets. \<exists>fetched. x = GetCall (ObjectKey ns nm) fetched) \<and>
                  (0 < TimeoutDelete d \<longrightarrow>
                     gets \<noteq> [] \<and> hd gets = GetCall (ObjectKey ns nm) object)" ..
next
  have same: "sameIdentity object object"
    by (simp add: sameIdentity_def)
  assume "TimeoutDelete d \<le> m"
  with assms(6) have "fetchesSucceed c1 (ObjectKey ns nm) object (TimeoutDelete d)"
    by (rule fetchesSucceed_mono)
  then have "fst (WaitForState [''deleting''] [''deleted''] (deleteRefresh (ObjectKey ns nm))
      (TimeoutDelete d) [] (c1, object))
     = (None, Some (TimeoutError (if TimeoutDelete d = 0 then [] else ''deleting'')))"
    using same by (rule deleting_until_deadline)
  then show "fst (resourceK8sManifestDelete L d c) =
              Some (Wrap (''Error waiting for resource ('' @ Id d @ '') to be deleted'')
                     (TimeoutError (if TimeoutDelete d = 0 then [] else ''deleting'')))"
    by (simp add: delete_after_call [OF assms(1-5)])
next
  have same: "sameIdentity object object"
    by (simp add: sameIdentity_def)
  assume h: "m < TimeoutDelete d \<and>
          fetchFails c (ObjectKey ns nm) object (Suc (length (calls c)) + m) NotFound"
  then have "fetchFails c1 (ObjectKey ns nm) object (length (calls c1) + m) NotFound"
    unfolding fetchFails_def assms(5) by simp
  from deleting_until_error [OF assms(6) conjunct1 [OF h] same this, where lastState = "[]"]
  obtain res where "fst (WaitForState [''deleting''] [''deleted'']
      (deleteRefresh (ObjectKey ns nm)) (TimeoutDelete d) [] (c1, object)) = (Some res, None)"
    by auto
  then show "fst (resourceK8sManifestDelete L d c) = None"
    by (simp add: delete_after_call [OF assms(1-5)])
next
  have same: "sameIdentity object object"
    by (simp add: sameIdentity_def)
  fix err
  assume h: "m < TimeoutDelete d \<and> err \<noteq> NotFound \<and>
          fetchFails c (ObjectKey ns nm) object (Suc (length (calls c)) + m) err"
  then have "fetchFails c1 (ObjectKey ns nm) object (length (calls c1) + m) err"
    unfolding fetchFails_def assms(5) by simp
  from deleting_until_error [OF assms(6) conjunct1 [OF h] same this, where lastState = "[]"] h
  have "fst (WaitForState [''deleting''] [''deleted'']
      (deleteRefresh (ObjectKey ns nm)) (TimeoutDelete d) [] (c1, object)) = (None, Some err)"
    by auto
  then show "fst (resourceK8sManifestDelete L d c) =
              Some (Wrap (''Error waiting for resource ('' @ Id d @ '') to be deleted'') err)"
    by (simp add: delete_after_call [OF assms(1-5)])
qed

theorem delete_wait_witness:
  "fst (resourceK8sManifestDelete demoLibs (demoData ''default::v1::ConfigMap::cm'' 2) demoClient)
     = Some (Wrap ''Error waiting for resource (default::v1::ConfigMap::cm) to be deleted''
              (TimeoutError ''deleting'')) \<and>
   fst (resourceK8sManifestDelete demoLibs (demoData ''default::v1::ConfigMap::cm'' 5) demoClient)
     = None \<and>
   take 2 (calls (snd (snd (resourceK8sManifestDelete demoLibs
       (demoData ''default::v1::ConfigMap::cm'' 2) demoClient))))
     = [DeleteCall configMap False, GetCall (ObjectKey ''default'' ''cm'') configMap]"
proof -
  let ?c1 = "demoClient\<lparr>calls := calls demoClient @ [DeleteCall configMap False]\<rparr>"
  have i: "idParts (Id (demoData ''default::v1::ConfigMap::cm'' t))
             = Inr (''default'', ''v1'', ''ConfigMap'', ''cm'')" for t
    by (simp add: demoData_simps idParts_demo)
  have g: "ParseGroupVersion ''v1'' = Inr (GroupVersion [] ''v1'')"
    by (simp add: ParseGroupVersion_def)
  have ob: "configMap = \<lparr>apiVersion = gvString (GroupVersion [] ''v1''), kind = ''ConfigMap'',
              namespace = ''default'', name = ''cm'', resourceVersion = [], spec = None,
              status = None\<rparr>"
    by (simp add: configMap_def gvString_def)
  have o: "onDelete demoClient configMap (delete_cascade (demoData ''default::v1::ConfigMap::cm'' t))
             = None" for t
    by (simp add: demoClient_simps configMap_simps)
  have c1: "?c1 = demoClient\<lparr>calls := calls demoClient @
              [DeleteCall configMap (delete_cascade (demoData ''default::v1::ConfigMap::cm'' t))]\<rparr>"
    for t by (simp add: demoData_simps)
  have f: "fetchesSucceed ?c1 (ObjectKey ''default'' ''cm'') configMap 2"
    by (auto simp: fetchesSucceed_def sameIdentity_def demoClient_simps configMap_simps)
  have n: "fetchFails demoClient (ObjectKey ''default'' ''cm'') configMap
             (Suc (length (calls demoClient)) + 2) NotFound"
    by (simp add: fetchFails_def demoClient_simps)
  note w2 = delete_wait [where L = demoLibs, OF i g ob o c1 f, of 2]
  note w5 = delete_wait [where L = demoLibs, OF i g ob o c1 f, of 5]
  from w2
  have 1: "fst (resourceK8sManifestDelete demoLibs (demoData ''default::v1::ConfigMap::cm'' 2) demoClient)
     = Some (Wrap ''Error waiting for resource (default::v1::ConfigMap::cm) to be deleted''
              (TimeoutError ''deleting''))"
    by (simp add: demoData_simps)
  from w5 n
  have 2: "fst (resourceK8sManifestDelete demoLibs (demoData ''default::v1::ConfigMap::cm'' 5) demoClient)
     = None"
    by (simp add: demoData_simps)
  from w2 have "\<exists>gets. calls (snd (snd (resourceK8sManifestDelete demoLibs
        (demoData ''default::v1::ConfigMap::cm'' 2) demoClient)))
       = calls demoClient @ DeleteCall configMap
           (delete_cascade (demoData ''default::v1::ConfigMap::cm'' 2)) # gets \<and>
      (\<forall>x \<in> set gets. \<exists>fetched. x = GetCall (ObjectKey ''default'' ''cm'') fetched) \<and>
      (0 < TimeoutDelete (demoData ''default::v1::ConfigMap::cm'' 2) \<longrightarrow>
         gets \<noteq> [] \<and> hd gets = GetCall (ObjectKey ''default'' ''cm'') configMap)"
    by (elim conjE)
  then obtain gets where
    gs: "calls (snd (snd (resourceK8sManifestDelete demoLibs
        (demoData ''default::v1::ConfigMap::cm'' 2) demoClient)))
       = calls demoClient @ DeleteCall configMap
           (delete_cascade (demoData ''default::v1::ConfigMap::cm'' 2)) # gets \<and>
      (\<forall>x \<in> set gets. \<exists>fetched. x = GetCall (ObjectKey ''default'' ''cm'') fetched) \<and>
      (0 < TimeoutDelete (demoData ''default::v1::ConfigMap::cm'' 2) \<longrightarrow>
         gets \<noteq> [] \<and> hd gets = GetCall (ObjectKey ''default'' ''cm'') configMap)" ..
  then have hd: "gets \<noteq> [] \<and> hd gets = GetCall (ObjectKey ''default'' ''cm'') configMap"
    by (simp add: demoData_simps)
  then obtain rest where r: "gets = GetCall (ObjectKey ''default'' ''cm'') configMap # rest"
    by (cases gets) simp_all
  from gs have "calls (snd (snd (resourceK8sManifestDelete demoLibs
        (demoData ''default::v1::ConfigMap::cm'' 2) demoClient)))
       = calls demoClient @ DeleteCall configMap
           (delete_cascade (demoData ''default::v1::ConfigMap::cm'' 2)) # gets"
    by (rule conjunct1)
  then have 3: "take 2 (calls (snd (snd (resourceK8sManifestDelete demoLibs
       (demoData ''default::v1::ConfigMap::cm'' 2) demoClient))))
     = [DeleteCall configMap False, GetCall (ObjectKey ''default'' ''cm'') configMap]"
    by (simp add: r demoClient_simps demoData_simps)
  from 1 2 3 show ?thesis by simp
qed

section \<open>Properties of create\<close>

lemma waitForReadyStatus_data:
  "fst (snd (waitForReadyStatus L d c object timeout)) = d"
  by (simp add: waitForReadyStatus_def ObjectKeyFromObject_def split: prod.splits option.splits)

lemma read_error_data:
  "fst (resourceK8sManifestRead L d c) = Some err \<Longrightarrow>
   fst (snd (resourceK8sManifestRead L d c)) = d"
  by (auto simp: resourceK8sManifestRead_def split: sum.splits prod.splits if_splits)

text \<open>
  C10. Once the remote create call has succeeded, the readiness wait is started with
  the tracking key of the created object stored as the ID, and the wait returns the
  resource data as it received them. If the wait ends in an error, create returns
  that error with the ID still the tracking key; and whenever create returns an
  error after a successful remote create, the stored ID is that tracking key.
\<close>

theorem create_sets_id:
  assumes "contentToObject L (content d) = Inr object"
    and "onCreate c (defaultNamespace (namespaceAttr d) object) = Inr created"
  shows "(\<forall>d' c' object' timeout. fst (snd (waitForReadyStatus L d' c' object' timeout)) = d') \<and>
         (\<forall>err d2 c2 object2.
            waitForReadyStatus L (SetId d (buildId created))
              (snd (clientCreate c (defaultNamespace (namespaceAttr d) object))) created
              (TimeoutCreate d) = (Some err, d2, c2, object2) \<longrightarrow>
            resourceK8sManifestCreate L d c = (Some err, SetId d (buildId created), c2)) \<and>
         (\<forall>err. fst (resourceK8sManifestCreate L d c) = Some err \<longrightarrow>
            Id (fst (snd (resourceK8sManifestCreate L d c))) = buildId created)"
proof (intro conjI allI impI)
  fix d' c' object' timeout
  show "fst (snd (waitForReadyStatus L d' c' object' timeout)) = d'"
    by (rule waitForReadyStatus_data)
next
  fix err d2 c2 object2
  assume w: "waitForReadyStatus L (SetId d (buildId created))
              (snd (clientCreate c (defaultNamespace (namespaceAttr d) object))) created
              (TimeoutCreate d) = (Some err, d2, c2, object2)"
  have "fst (snd (waitForReadyStatus L (SetId d (buildId created))
              (snd (clientCreate c (defaultNamespace (namespaceAttr d) object))) created
              (TimeoutCreate d))) = SetId d (buildId created)"
    by (rule waitForReadyStatus_data)
  with w have "d2 = SetId d (buildId created)" by simp
  with w assms show "resourceK8sManifestCreate L d c = (Some err, SetId d (buildId created), c2)"
    by (simp add: resourceK8sManifestCreate_def clientCreate_def)
next
  fix err
  assume e: "fst (resourceK8sManifestCreate L d c) = Some err"
  let ?c1 = "snd (clientCreate c (defaultNamespace (namespaceAttr d) object))"
  let ?w = "waitForReadyStatus L (SetId d (buildId created)) ?c1 created (TimeoutCreate d)"
  obtain werr d2 c2 object2 where w: "?w = (werr, d2, c2, object2)"
    by (cases ?w) auto
  have d2: "d2 = SetId d (buildId created)"
    using waitForReadyStatus_data [of L "SetId d (buildId created)" ?c1 created "TimeoutCreate d"] w
    by simp
  show "Id (fst (snd (resourceK8sManifestCreate L d c))) = buildId created"
  proof (cases werr)
    case (Some e')
    with w d2 assms show ?thesis
      by (simp add: resourceK8sManifestCreate_def clientCreate_def)
  next
    case None
    with w d2 assms have r: "resourceK8sManifestCreate L d c
        = resourceK8sManifestRead L (SetId d (buildId created)) c2"
      by (simp add: resourceK8sManifestCreate_def clientCreate_def)
    with e read_error_data [of L "SetId d (buildId created)" c2 err] show ?thesis
      by simp
  qed
qed

theorem create_sets_id_witness:
  "fst (resourceK8sManifestCreate demoLibs (demoData [] (Suc 0)) demoClient)
     = Some (Wrap ''Error waiting for resource (default::v1::ConfigMap::cm) to be created''
              (TimeoutError ''pending'')) \<and>
   Id (fst (snd (resourceK8sManifestCreate demoLibs (demoData [] (Suc 0)) demoClient)))
     = ''default::v1::ConfigMap::cm''"
proof -
  let ?d = "demoData [] (Suc 0)"
  have a: "contentToObject demoLibs (content ?d) = Inr (configMap\<lparr>namespace := []\<rparr>)"
    by (simp add: demoData_simps contentToObject_demo)
  have n: "defaultNamespace (namespaceAttr ?d) (configMap\<lparr>namespace := []\<rparr>) = configMap"
    by (simp add: defaultNamespace_def demoData_simps configMap_def)
  have b: "onCreate demoClient (defaultNamespace (namespaceAttr ?d) (configMap\<lparr>namespace := []\<rparr>))
             = Inr (configMap\<lparr>resourceVersion := ''1''\<rparr>)"
    by (simp add: n demoClient_simps)
  have i: "buildId (configMap\<lparr>resourceVersion := ''1''\<rparr>) = ''default::v1::ConfigMap::cm''"
    by (simp add: buildId_def gvk_simps configMap_def idSeparator_def)
  have w: "waitForReadyStatus demoLibs (SetId ?d (buildId (configMap\<lparr>resourceVersion := ''1''\<rparr>)))
             (snd (clientCreate demoClient
                (defaultNamespace (namespaceAttr ?d) (configMap\<lparr>namespace := []\<rparr>))))
             (configMap\<lparr>resourceVersion := ''1''\<rparr>) (TimeoutCreate ?d)
           = (Some (Wrap ''Error waiting for resource (default::v1::ConfigMap::cm) to be created''
                (TimeoutError ''pending'')),
              SetId ?d ''default::v1::ConfigMap::cm'',
              demoClient\<lparr>calls := [CreateCall configMap,
                 GetCall (ObjectKey ''default'' ''cm'') (configMap\<lparr>resourceVersion := ''1''\<rparr>)]\<rparr>,
              configMap\<lparr>resourceVersion := ''1'',
                 status := Some (JMap (fmupd ''readyReplicas'' (JInt 0) fmempty))\<rparr>)"
    by (simp add: n i waitForReadyStatus_def ObjectKeyFromObject_def readyRefresh_def
        clientGet_def clientCreate_def demoClient_simps demoData_simps readyStatus_demo)
       (simp add: configMap_def defaultNamespace_def)
  from create_sets_id [OF a b] w
  have "resourceK8sManifestCreate demoLibs ?d demoClient
          = (Some (Wrap ''Error waiting for resource (default::v1::ConfigMap::cm) to be created''
                (TimeoutError ''pending'')),
             SetId ?d (buildId (configMap\<lparr>resourceVersion := ''1''\<rparr>)),
             demoClient\<lparr>calls := [CreateCall configMap,
                 GetCall (ObjectKey ''default'' ''cm'') (configMap\<lparr>resourceVersion := ''1''\<rparr>)]\<rparr>)"
    by blast
  then show ?thesis
    by (simp add: i)
qed

section \<open>Properties of update\<close>

lemma patch_calls:
  "calls (snd (patch L c target original current)) = calls c \<or>
   (\<exists>t data. calls (snd (patch L c target original current))
       = calls c @ [PatchCall current t data])"
  by (auto simp: patch_def clientPatch_def split: prod.splits option.splits)

text \<open>
  C3 (as amended). In every update that reaches the patch engine, the resource
  version is cleared on the original and on the current object, and the fetched
  object's resource version is set on the target (modified) object only; these are
  the three objects handed to \<open>patch\<close>, and every remote patch call it issues
  carries an object without a resource version.
\<close>

theorem update_resourceVersion:
  assumes "idParts (Id d) = Inr (ns, gv, k, nm)"
    and "contentToObject L (content d) = Inr newObject"
    and "contentToObject L (contentOld d) = Inr original"
    and "modified = defaultNamespace ns newObject"
    and "clientGet c (ObjectKey (GetNamespace modified) (GetName modified)) modified
           = (Inr current, c1)"
  shows "resourceK8sManifestUpdate L d c =
           (case patch L c1 (SetResourceVersion modified (GetResourceVersion current))
                   (SetResourceVersion original []) (SetResourceVersion current []) of
              (Some err, c2) \<Rightarrow> (Some err, d, c2)
            | (None, c2) \<Rightarrow>
                (case waitForReadyStatus L d c2
                        (SetResourceVersion modified (GetResourceVersion current))
                        (TimeoutUpdate d) of
                   (err, d3, c3, object3) \<Rightarrow> (err, d3, c3))) \<and>
         GetResourceVersion (SetResourceVersion original []) = [] \<and>
         GetResourceVersion (SetResourceVersion current []) = [] \<and>
         GetResourceVersion (SetResourceVersion modified (GetResourceVersion current))
           = GetResourceVersion current \<and>
         (\<forall>object t data.
            PatchCall object t data \<in> set (calls (snd (patch L c1
                (SetResourceVersion modified (GetResourceVersion current))
                (SetResourceVersion original []) (SetResourceVersion current [])))) \<and>
            PatchCall object t data \<notin> set (calls c1) \<longrightarrow>
            GetResourceVersion object = [])"
proof -
  have "calls (snd (patch L c1 (SetResourceVersion modified (GetResourceVersion current))
                (SetResourceVersion original []) (SetResourceVersion current []))) = calls c1 \<or>
        (\<exists>t data. calls (snd (patch L c1 (SetResourceVersion modified (GetResourceVersion current))
                (SetResourceVersion original []) (SetResourceVersion current [])))
           = calls c1 @ [PatchCall (SetResourceVersion current []) t data])"
    by (rule patch_calls)
  then have sent: "\<forall>object t data.
            PatchCall object t data \<in> set (calls (snd (patch L c1
                (SetResourceVersion modified (GetResourceVersion current))
                (SetResourceVersion original []) (SetResourceVersion current [])))) \<and>
            PatchCall object t data \<notin> set (calls c1) \<longrightarrow>
            GetResourceVersion object = []"
    by auto
  have "resourceK8sManifestUpdate L d c =
           (case patch L c1 (SetResourceVersion modified (GetResourceVersion current))
                   (SetResourceVersion original []) (SetResourceVersion current []) of
              (Some err, c2) \<Rightarrow> (Some err, d, c2)
            | (None, c2) \<Rightarrow>
                (case waitForReadyStatus L d c2
                        (SetResourceVersion modified (GetResourceVersion current))
                        (TimeoutUpdate d) of
                   (err, d3, c3, object3) \<Rightarrow> (err, d3, c3)))"
    using assms
    by (simp add: resourceK8sManifestUpdate_def ObjectKeyFromObject_def Let_def
        split: prod.splits option.splits)
  with sent show ?thesis by simp
qed

lemma demo_update_patch:
  "patch demoLibs c (configMap\<lparr>resourceVersion := ''1''\<rparr>) (configMap\<lparr>namespace := []\<rparr>)
      (configMap\<lparr>status := Some (JMap (fmupd ''readyReplicas'' (JInt 0) fmempty))\<rparr>)
   = (map_option (Wrap ''cannot patch'')
        (onPatch c (configMap\<lparr>status := Some (JMap (fmupd ''readyReplicas'' (JInt 0) fmempty))\<rparr>)
           StrategicMergePatchType ''v1|ConfigMap|default|cm|1''),
      c\<lparr>calls := calls c @
         [PatchCall (configMap\<lparr>status := Some (JMap (fmupd ''readyReplicas'' (JInt 0) fmempty))\<rparr>)
            StrategicMergePatchType ''v1|ConfigMap|default|cm|1'']\<rparr>)"
  by (simp add: patch_def createPatch_def convert_def demoLibs_simps demoMarshal_def gvk_simps
      configMap_def clientPatch_def split: option.splits)

lemma demo_update_wait:
  assumes "onGet c = onGet demoClient"
  shows "waitForReadyStatus demoLibs (demoData ''default::v1::ConfigMap::cm'' (Suc 0)) c
           (configMap\<lparr>resourceVersion := ''1''\<rparr>) (Suc 0)
           = (if length (calls c) < 3
              then Some (Wrap ''Error waiting for resource (default::v1::ConfigMap::cm) to be created''
                     (TimeoutError ''pending''))
              else Some (Wrap ''Error waiting for resource (default::v1::ConfigMap::cm) to be created''
                     NotFound),
              demoData ''default::v1::ConfigMap::cm'' (Suc 0),
              c\<lparr>calls := calls c @
                 [GetCall (ObjectKey ''default'' ''cm'') (configMap\<lparr>resourceVersion := ''1''\<rparr>)]\<rparr>,
              if length (calls c) < 3
              then configMap\<lparr>resourceVersion := ''1'',
                     status := Some (JMap (fmupd ''readyReplicas'' (JInt 0) fmempty))\<rparr>
              else configMap\<lparr>resourceVersion := ''1''\<rparr>)"
  using assms
  by (simp add: waitForReadyStatus_def ObjectKeyFromObject_def readyRefresh_def
      clientGet_def demoClient_simps demoData_simps readyStatus_demo)
     (simp add: configMap_def)

theorem update_resourceVersion_witness:
  "calls (snd (snd (resourceK8sManifestUpdate demoLibs
       (demoData ''default::v1::ConfigMap::cm'' (Suc 0)) demoClient)))
     = [GetCall (ObjectKey ''default'' ''cm'') configMap,
        PatchCall (configMap\<lparr>status := Some (JMap (fmupd ''readyReplicas'' (JInt 0) fmempty))\<rparr>)
          StrategicMergePatchType ''v1|ConfigMap|default|cm|1'',
        GetCall (ObjectKey ''default'' ''cm'') (configMap\<lparr>resourceVersion := ''1''\<rparr>)]"
proof -
  let ?d = "demoData ''default::v1::ConfigMap::cm'' (Suc 0)"
  let ?cur = "configMap\<lparr>resourceVersion := ''1'',
                status := Some (JMap (fmupd ''readyReplicas'' (JInt 0) fmempty))\<rparr>"
  let ?c1 = "demoClient\<lparr>calls := [GetCall (ObjectKey ''default'' ''cm'') configMap]\<rparr>"
  have i: "idParts (Id ?d) = Inr (''default'', ''v1'', ''ConfigMap'', ''cm'')"
    by (simp add: demoData_simps idParts_demo)
  have a: "contentToObject demoLibs (content ?d) = Inr (configMap\<lparr>namespace := []\<rparr>)"
    by (simp add: demoData_simps contentToObject_demo)
  have b: "contentToObject demoLibs (contentOld ?d) = Inr (configMap\<lparr>namespace := []\<rparr>)"
    by (simp add: demoData_simps contentToObject_demo)
  have m: "configMap = defaultNamespace ''default'' (configMap\<lparr>namespace := []\<rparr>)"
    by (simp add: defaultNamespace_def configMap_def)
  have g: "clientGet demoClient (ObjectKey (GetNamespace configMap) (GetName configMap)) configMap
             = (Inr ?cur, ?c1)"
    by (simp add: clientGet_def demoClient_simps configMap_def)
  have t: "SetResourceVersion configMap (GetResourceVersion ?cur) = configMap\<lparr>resourceVersion := ''1''\<rparr>"
    "SetResourceVersion (configMap\<lparr>namespace := []\<rparr>) [] = configMap\<lparr>namespace := []\<rparr>"
    "SetResourceVersion ?cur []
       = configMap\<lparr>status := Some (JMap (fmupd ''readyReplicas'' (JInt 0) fmempty))\<rparr>"
    by (simp_all add: configMap_def)
  from update_resourceVersion [where L = demoLibs, OF i a b m g]
  have "resourceK8sManifestUpdate demoLibs ?d demoClient =
           (case patch demoLibs ?c1 (SetResourceVersion configMap (GetResourceVersion ?cur))
                   (SetResourceVersion (configMap\<lparr>namespace := []\<rparr>) [])
                   (SetResourceVersion ?cur []) of
              (Some err, c2) \<Rightarrow> (Some err, ?d, c2)
            | (None, c2) \<Rightarrow>
                (case waitForReadyStatus demoLibs ?d c2
                        (SetResourceVersion configMap (GetResourceVersion ?cur))
                        (TimeoutUpdate ?d) of
                   (err, d3, c3, object3) \<Rightarrow> (err, d3, c3)))"
    by (rule conjunct1)
  then show ?thesis
    by (simp add: t demo_update_patch demoClient_simps demoData_simps demo_update_wait)
qed

text \<open>
  C3, as the claim states it, fails: the fetched object has resource version \<open>1\<close>,
  but the current object that the update hands to the remote patch call has none;
  the version is kept on the target, from which the patch is computed.
\<close>

theorem update_resourceVersion_counterexample:
  "onGet demoClient 0 (ObjectKey ''default'' ''cm'') configMap
     = Inr (configMap\<lparr>resourceVersion := ''1'',
              status := Some (JMap (fmupd ''readyReplicas'' (JInt 0) fmempty))\<rparr>) \<and>
   calls (snd (snd (resourceK8sManifestUpdate demoLibs
       (demoData ''default::v1::ConfigMap::cm'' (Suc 0)) demoClient))) ! 1
     = PatchCall (configMap\<lparr>status := Some (JMap (fmupd ''readyReplicas'' (JInt 0) fmempty))\<rparr>)
          StrategicMergePatchType ''v1|ConfigMap|default|cm|1'' \<and>
   GetResourceVersion
     (configMap\<lparr>status := Some (JMap (fmupd ''readyReplicas'' (JInt 0) fmempty))\<rparr>) = [] \<and>
   [] \<noteq> ''1''"
proof -
  let ?d = "demoData ''default::v1::ConfigMap::cm'' (Suc 0)"
  let ?cur = "configMap\<lparr>resourceVersion := ''1'',
                status := Some (JMap (fmupd ''readyReplicas'' (JInt 0) fmempty))\<rparr>"
  have m: "defaultNamespace ''default'' (configMap\<lparr>namespace := []\<rparr>) = configMap"
    by (simp add: defaultNamespace_def configMap_def)
  have k: "ObjectKeyFromObject configMap = Inr (ObjectKey ''default'' ''cm'')"
    by (simp add: ObjectKeyFromObject_def configMap_def)
  have t: "SetResourceVersion configMap (GetResourceVersion ?cur) = configMap\<lparr>resourceVersion := ''1''\<rparr>"
    "SetResourceVersion (configMap\<lparr>namespace := []\<rparr>) [] = configMap\<lparr>namespace := []\<rparr>"
    "SetResourceVersion ?cur []
       = configMap\<lparr>status := Some (JMap (fmupd ''readyReplicas'' (JInt 0) fmempty))\<rparr>"
    by (simp_all add: configMap_def)
  have "calls (snd (snd (resourceK8sManifestUpdate demoLibs ?d demoClient)))
     = [GetCall (ObjectKey ''default'' ''cm'') configMap,
        PatchCall (configMap\<lparr>status := Some (JMap (fmupd ''readyReplicas'' (JInt 0) fmempty))\<rparr>)
          StrategicMergePatchType ''v1|ConfigMap|default|cm|1'',
        GetCall (ObjectKey ''default'' ''cm'') (configMap\<lparr>resourceVersion := ''1''\<rparr>)]"
    by (simp add: resourceK8sManifestUpdate_def demoData_simps idParts_demo contentToObject_demo
        m k clientGet_def demoClient_simps configMap_simps t demo_update_patch
        demo_update_wait)
  then show ?thesis
    by (simp add: demoClient_simps configMap_def)
qed

end
